theory Spec2Isabelle
  imports Main "HOL-Library.Word"
begin

unbundle bit_operations_syntax

section \<open>Common data: bytes, errors, output prefix types\<close>

type_synonym byte = "8 word"
type_synonym bytes = "byte list"

text \<open>A Go \<^verbatim>\<open>error\<close> value is modelled by its message; the \<^verbatim>\<open>nil\<close> error is
  \<open>None\<close> of \<open>error option\<close>, and a \<^verbatim>\<open>(value, error)\<close> result is \<open>error + value\<close>.\<close>

datatype error = Error string

fun message :: "error \<Rightarrow> string" where
  "message (Error s) = s"

datatype OutputPrefixType = TINK | LEGACY | CRUNCHY | RAW

text \<open>The constants of \<^verbatim>\<open>mac_factory.go\<close>:
  \<^verbatim>\<open>intSize = 32 << (^uint(0) >> 63)\<close> and \<^verbatim>\<open>maxInt = 1<<(intSize-1) - 1\<close>.
  The width of Go's \<^verbatim>\<open>uint\<close> (32 or 64) is the parameter \<open>uintBits\<close>.\<close>

definition intSize :: "nat \<Rightarrow> nat" where
  "intSize uintBits = push_bit (drop_bit 63 ((2::nat) ^ uintBits - 1)) (32::nat)"

definition maxInt :: "nat \<Rightarrow> nat" where
  "maxInt uintBits = push_bit (intSize uintBits - 1) (1::nat) - 1"

section \<open>The MAC interface, primitive-set entries and the primitive set\<close>

text \<open>The interface \<^verbatim>\<open>tink.MAC\<close>: two methods.\<close>

record MAC =
  ComputeMAC :: "bytes \<Rightarrow> error + bytes"
  VerifyMAC :: "bytes \<Rightarrow> bytes \<Rightarrow> error option"

record Entry =
  KeyID :: "32 word"
  Primitive :: MAC
  Prefix :: bytes
  PrefixType :: OutputPrefixType

text \<open>The primitive set as \<^verbatim>\<open>wrappedMAC\<close> consumes it: the primary entry and the two
  lookup methods \<^verbatim>\<open>EntriesForPrefix\<close> and \<^verbatim>\<open>RawEntries\<close>, each returning
  \<^verbatim>\<open>(entries, err)\<close>. Package \<^verbatim>\<open>primitiveset\<close> is outside the sources, so the two
  methods are parameters of the model.\<close>

record PrimitiveSet =
  Primary :: Entry
  EntriesForPrefix :: "bytes \<Rightarrow> error + Entry list"
  RawEntries :: "error + Entry list"

text \<open>Modelled from the spec: \<^verbatim>\<open>cryptofmt.NonRawPrefixSize\<close>, declared outside the
  sources (``Let prefixSize = 5'', ``Prefix is 5 bytes for non-RAW'').\<close>

definition NonRawPrefixSize :: nat where
  "NonRawPrefixSize = 5"

text \<open>Modelled from the spec: the output-prefix formula of package \<^verbatim>\<open>cryptofmt\<close>
  (section 4.5): \<^verbatim>\<open>TINK: 0x01 || big-endian uint32 keyId\<close>,
  \<^verbatim>\<open>CRUNCHY, LEGACY: 0x00 || big-endian uint32 keyId\<close>, \<^verbatim>\<open>RAW: (empty)\<close>.\<close>

definition bigEndianUint32 :: "32 word \<Rightarrow> bytes" where
  "bigEndianUint32 k = [ucast (drop_bit 24 k), ucast (drop_bit 16 k), ucast (drop_bit 8 k), ucast k]"

fun outputPrefix :: "OutputPrefixType \<Rightarrow> 32 word \<Rightarrow> bytes" where
  "outputPrefix TINK k = 1 # bigEndianUint32 k"
| "outputPrefix LEGACY k = 0 # bigEndianUint32 k"
| "outputPrefix CRUNCHY k = 0 # bigEndianUint32 k"
| "outputPrefix RAW k = []"

section \<open>The wrapped MAC\<close>

text \<open>The monitoring logger's two methods and the calls made on underlying primitives are
  the effects of \<^verbatim>\<open>ComputeMAC\<close> and \<^verbatim>\<open>VerifyMAC\<close>; both are recorded in order.
  A recorded call carries the loop it was made from (the source's ``try non raw keys'' and
  ``try raw keys''), the entry's key id and prefix type, and the two arguments.\<close>

datatype LogEvent = Log "32 word" nat | LogFailure

datatype Phase = NonRawKeys | RawKeys

datatype PrimitiveCall =
    CallComputeMAC "32 word" bytes
  | CallVerifyMAC Phase "32 word" OutputPrefixType bytes bytes

text \<open>The state a call threads: the local variable \<^verbatim>\<open>data\<close> (which the source
  reassigns), the log events so far and the primitive calls so far.\<close>

record CallState =
  cur_data :: bytes
  logged :: "LogEvent list"
  invoked :: "PrimitiveCall list"

definition initial :: "bytes \<Rightarrow> CallState" where
  "initial d = \<lparr>cur_data = d, logged = [], invoked = []\<rparr>"

definition log_event :: "LogEvent \<Rightarrow> CallState \<Rightarrow> CallState" where
  "log_event ev st = st\<lparr>logged := logged st @ [ev]\<rparr>"

definition record_call :: "PrimitiveCall \<Rightarrow> CallState \<Rightarrow> CallState" where
  "record_call c st = st\<lparr>invoked := invoked st @ [c]\<rparr>"

record wrappedMAC =
  ps :: PrimitiveSet

definition errInvalidMAC :: error where
  "errInvalidMAC = Error ''mac_factory: invalid mac''"

definition errDataTooLong :: error where
  "errDataTooLong = Error ''mac_factory: data too long''"

text \<open>\<^verbatim>\<open>wrappedMAC.ComputeMAC\<close>.\<close>

definition wrappedMAC_ComputeMAC ::
  "nat \<Rightarrow> wrappedMAC \<Rightarrow> bytes \<Rightarrow> (error + bytes) \<times> CallState" where
  "wrappedMAC_ComputeMAC uintBits m data =
    (let primary = Primary (ps m); st0 = initial data in
     if PrefixType (Primary (ps m)) = LEGACY \<and> maxInt uintBits \<le> length data
     then (Inl errDataTooLong, log_event LogFailure st0)
     else
       let st1 = (if PrefixType (Primary (ps m)) = LEGACY
                  then st0\<lparr>cur_data := data @ [0]\<rparr> else st0);
           st2 = record_call (CallComputeMAC (KeyID primary) (cur_data st1)) st1
       in (case ComputeMAC (Primitive primary) (cur_data st1) of
             Inl err \<Rightarrow> (Inl err, log_event LogFailure st2)
           | Inr mac \<Rightarrow>
               let st3 = log_event (Log (KeyID primary) (length (cur_data st2))) st2 in
               if length (Prefix primary) = 0 then (Inr mac, st3)
               else (Inr (Prefix primary @ mac), st3)))"

text \<open>\<^verbatim>\<open>wrappedMAC.VerifyMAC\<close>. Each loop either makes the method return
  (\<open>Returned\<close> with the error value) or runs to its end (\<open>Continue\<close>).\<close>

datatype flow = Returned "error option" | Continue

fun tryNonRawKeys :: "nat \<Rightarrow> bytes \<Rightarrow> Entry list \<Rightarrow> CallState \<Rightarrow> flow \<times> CallState" where
  "tryNonRawKeys uintBits macNoPrefix [] st = (Continue, st)"
| "tryNonRawKeys uintBits macNoPrefix (entry # entries) st =
    (if PrefixType entry = LEGACY \<and> maxInt uintBits \<le> length (cur_data st)
     then (Returned (Some errDataTooLong), log_event LogFailure st)
     else
       let st1 = (if PrefixType entry = LEGACY
                  then st\<lparr>cur_data := cur_data st @ [0]\<rparr> else st);
           st2 = record_call (CallVerifyMAC NonRawKeys (KeyID entry) (PrefixType entry)
                                macNoPrefix (cur_data st1)) st1
       in (case VerifyMAC (Primitive entry) macNoPrefix (cur_data st1) of
             None \<Rightarrow> (Returned None, log_event (Log (KeyID entry) (length (cur_data st2))) st2)
           | Some err \<Rightarrow> tryNonRawKeys uintBits macNoPrefix entries st2))"

fun tryRawKeys :: "bytes \<Rightarrow> Entry list \<Rightarrow> CallState \<Rightarrow> flow \<times> CallState" where
  "tryRawKeys mac [] st = (Continue, st)"
| "tryRawKeys mac (entry # entries) st =
    (let st1 = record_call (CallVerifyMAC RawKeys (KeyID entry) (PrefixType entry)
                              mac (cur_data st)) st
     in (case VerifyMAC (Primitive entry) mac (cur_data st) of
           None \<Rightarrow> (Returned None, log_event (Log (KeyID entry) (length (cur_data st1))) st1)
         | Some err \<Rightarrow> tryRawKeys mac entries st1))"

definition wrappedMAC_VerifyMAC ::
  "nat \<Rightarrow> wrappedMAC \<Rightarrow> bytes \<Rightarrow> bytes \<Rightarrow> error option \<times> CallState" where
  "wrappedMAC_VerifyMAC uintBits m mac data =
    (let prefixSize = NonRawPrefixSize; st0 = initial data in
     if length mac \<le> prefixSize then (Some errInvalidMAC, log_event LogFailure st0)
     else
       let prefix = take prefixSize mac;
           macNoPrefix = drop prefixSize mac;
           (f1, st1) = (case EntriesForPrefix (ps m) prefix of
                          Inr entries \<Rightarrow> tryNonRawKeys uintBits macNoPrefix entries st0
                        | Inl err \<Rightarrow> (Continue, st0))
       in (case f1 of
             Returned r \<Rightarrow> (r, st1)
           | Continue \<Rightarrow>
               let (f2, st2) = (case RawEntries (ps m) of
                                  Inr entries \<Rightarrow> tryRawKeys mac entries st1
                                | Inl err \<Rightarrow> (Continue, st1))
               in (case f2 of
                     Returned r \<Rightarrow> (r, st2)
                   | Continue \<Rightarrow> (Some errInvalidMAC, log_event LogFailure st2))))"

subsection \<open>Well-formed primitive sets and the contract of an underlying MAC\<close>

text \<open>The contract the wrapper consumes from an underlying primitive: a tag that
  \<^verbatim>\<open>ComputeMAC\<close> returns for some data is accepted by \<^verbatim>\<open>VerifyMAC\<close> for that data.\<close>

definition macCorrect :: "MAC \<Rightarrow> bool" where
  "macCorrect p \<longleftrightarrow> (\<forall>d t. ComputeMAC p d = Inr t \<longrightarrow> VerifyMAC p t d = None)"

text \<open>The entries a primitive set holds: those indexed under a 5-byte prefix and the raw
  ones.\<close>

definition entriesOf :: "PrimitiveSet \<Rightarrow> Entry set" where
  "entriesOf s =
     {e. (\<exists>p es. length p = NonRawPrefixSize \<and> EntriesForPrefix s p = Inr es \<and> e \<in> set es)
       \<or> (\<exists>es. RawEntries s = Inr es \<and> e \<in> set es)}"

text \<open>The invariants of section 3 of the specification: the lookups do not fail; the raw
  list holds the \<open>RAW\<close> entries and a prefix bucket the non-\<open>RAW\<close> entries carrying that
  prefix; every entry's prefix is determined by its prefix type and key id; key ids are unique;
  the primary is one of the entries.\<close>

definition wellFormed :: "PrimitiveSet \<Rightarrow> bool" where
  "wellFormed s \<longleftrightarrow>
     (\<exists>es. RawEntries s = Inr es) \<and>
     (\<forall>p. length p = NonRawPrefixSize \<longrightarrow> (\<exists>es. EntriesForPrefix s p = Inr es)) \<and>
     (\<forall>es e. RawEntries s = Inr es \<longrightarrow> e \<in> set es \<longrightarrow> PrefixType e = RAW) \<and>
     (\<forall>p es e. length p = NonRawPrefixSize \<longrightarrow> EntriesForPrefix s p = Inr es \<longrightarrow> e \<in> set es \<longrightarrow>
        PrefixType e \<noteq> RAW \<and> Prefix e = p) \<and>
     (\<forall>e \<in> entriesOf s. Prefix e = outputPrefix (PrefixType e) (KeyID e)) \<and>
     (\<forall>e \<in> entriesOf s. \<forall>e' \<in> entriesOf s. KeyID e = KeyID e' \<longrightarrow> e = e') \<and>
     Primary s \<in> entriesOf s"

subsection \<open>Concrete primitive sets\<close>

text \<open>A toy MAC for concrete runs: the tag of \<open>d\<close> under \<open>key\<close> is \<open>key @ d\<close>.\<close>

definition toyMAC :: "bytes \<Rightarrow> MAC" where
  "toyMAC key = \<lparr>ComputeMAC = (\<lambda>d. Inr (key @ d)),
                 VerifyMAC = (\<lambda>t d. if t = key @ d then None
                                     else Some (Error ''toy: invalid mac''))\<rparr>"

definition legacyEntry1 :: Entry where
  "legacyEntry1 =
     \<lparr>KeyID = 1, Primitive = toyMAC [5], Prefix = [0, 0, 0, 0, 1], PrefixType = LEGACY\<rparr>"

definition rawEntry2 :: Entry where
  "rawEntry2 =
     \<lparr>KeyID = 2, Primitive = toyMAC [0, 0, 0, 0, 1, 9], Prefix = [], PrefixType = RAW\<rparr>"

text \<open>A keyset with a \<open>LEGACY\<close> key 1 and a \<open>RAW\<close> primary key 2 whose tags start with
  the five bytes of key 1's prefix.\<close>

definition collidingSet :: wrappedMAC where
  "collidingSet = \<lparr>ps = \<lparr>Primary = rawEntry2,
      EntriesForPrefix = (\<lambda>p. if p = [0, 0, 0, 0, 1] then Inr [legacyEntry1] else Inr []),
      RawEntries = Inr [rawEntry2]\<rparr>\<rparr>"

definition legacyEntry1b :: Entry where
  "legacyEntry1b =
     \<lparr>KeyID = 1, Primitive = toyMAC [6], Prefix = [0, 0, 0, 0, 1], PrefixType = LEGACY\<rparr>"

text \<open>A prefix bucket holding two \<open>LEGACY\<close> entries.\<close>

definition twoLegacySet :: wrappedMAC where
  "twoLegacySet = \<lparr>ps = \<lparr>Primary = legacyEntry1b,
      EntriesForPrefix =
        (\<lambda>p. if p = [0, 0, 0, 0, 1] then Inr [legacyEntry1, legacyEntry1b] else Inr []),
      RawEntries = Inr []\<rparr>\<rparr>"

definition rawEntry3 :: Entry where
  "rawEntry3 = \<lparr>KeyID = 3, Primitive = toyMAC [1, 2, 3], Prefix = [], PrefixType = RAW\<rparr>"

text \<open>A keyset whose only key is \<open>RAW\<close> and produces 3-byte tags on empty data.\<close>

definition shortTagSet :: wrappedMAC where
  "shortTagSet = \<lparr>ps = \<lparr>Primary = rawEntry3,
      EntriesForPrefix = (\<lambda>p. Inr []),
      RawEntries = Inr [rawEntry3]\<rparr>\<rparr>"

definition tinkEntry :: Entry where
  "tinkEntry =
     \<lparr>KeyID = 0x01020304, Primitive = toyMAC [9], Prefix = [1, 1, 2, 3, 4], PrefixType = TINK\<rparr>"

text \<open>A keyset with a \<open>TINK\<close> primary (key id \<open>0x01020304\<close>) and a \<open>RAW\<close> secondary.\<close>

definition tinkSet :: wrappedMAC where
  "tinkSet = \<lparr>ps = \<lparr>Primary = tinkEntry,
      EntriesForPrefix = (\<lambda>p. if p = [1, 1, 2, 3, 4] then Inr [tinkEntry] else Inr []),
      RawEntries = Inr [rawEntry2]\<rparr>\<rparr>"

section \<open>The HMAC key manager\<close>

text \<open>Modelled from the spec: the enumeration \<^verbatim>\<open>commonpb.HashType\<close> (``HashKind:
  enumeration {SHA1, SHA224, SHA256, SHA384, SHA512}''), declared in generated code outside
  the sources. \<open>UNKNOWN_HASH\<close> is the zero value, which the getter returns for absent
  params.\<close>

datatype HashType = UNKNOWN_HASH | SHA1 | SHA224 | SHA256 | SHA384 | SHA512

record HmacParams =
  Hash :: HashType
  TagSize :: "32 word"

record HmacKey =
  Version :: "32 word"
  Params :: "HmacParams option"
  KeyValue :: bytes

record HmacKeyFormat =
  Params :: "HmacParams option"
  KeySize :: "32 word"
  Version :: "32 word"

datatype KeyMaterialType = SYMMETRIC | ASYMMETRIC_PRIVATE | ASYMMETRIC_PUBLIC | REMOTE

record KeyData =
  TypeUrl :: string
  Value :: bytes
  KeyMaterialType :: KeyMaterialType

text \<open>The nil-safe getters of the generated message types: an absent \<^verbatim>\<open>Params\<close> reads
  as the zero values.\<close>

definition GetHash :: "HmacParams option \<Rightarrow> HashType" where
  "GetHash p = (case p of None \<Rightarrow> UNKNOWN_HASH | Some q \<Rightarrow> Hash q)"

definition GetTagSize :: "HmacParams option \<Rightarrow> 32 word" where
  "GetTagSize p = (case p of None \<Rightarrow> 0 | Some q \<Rightarrow> TagSize q)"

text \<open>What the key manager calls outside the sources: protobuf (un)marshalling, the name
  table \<^verbatim>\<open>commonpb.HashType_name\<close>, \<^verbatim>\<open>subtle.ValidateHMACParams\<close>,
  \<^verbatim>\<open>subtle.NewHMAC\<close> and \<^verbatim>\<open>random.GetRandomBytes\<close>. They are parameters of the
  model; \<open>'p\<close> is the type of the constructed primitive.\<close>

record 'p hmacDeps =
  Unmarshal_HmacKey :: "bytes \<Rightarrow> error + HmacKey"
  Unmarshal_HmacKeyFormat :: "bytes \<Rightarrow> error + HmacKeyFormat"
  Marshal_HmacKey :: "HmacKey \<Rightarrow> error + bytes"
  HashType_name :: "HashType \<Rightarrow> string"
  ValidateHMACParams :: "string \<Rightarrow> 32 word \<Rightarrow> 32 word \<Rightarrow> error option"
  NewHMAC :: "string \<Rightarrow> bytes \<Rightarrow> 32 word \<Rightarrow> error + 'p"
  GetRandomBytes :: "32 word \<Rightarrow> bytes"

definition hmacKeyVersion :: "32 word" where
  "hmacKeyVersion = 0"

definition hmacTypeURL :: string where
  "hmacTypeURL = ''type.googleapis.com/google.crypto.tink.HmacKey''"

definition errInvalidHMACKey :: error where
  "errInvalidHMACKey = Error ''hmac_key_manager: invalid key''"

definition errInvalidHMACKeyFormat :: error where
  "errInvalidHMACKeyFormat = Error ''hmac_key_manager: invalid key format''"

text \<open>Modelled from the spec: \<^verbatim>\<open>keyset.ValidateKeyVersion(version, maxExpected)\<close>, which
  is outside the sources (``Version is 0; rejects any higher value'').\<close>

definition ValidateKeyVersion :: "32 word \<Rightarrow> 32 word \<Rightarrow> error option" where
  "ValidateKeyVersion version maxExpected =
     (if maxExpected < version then Some (Error ''key has unsupported version'') else None)"

text \<open>\<^verbatim>\<open>io.ReadFull\<close> on a reader that yields the bytes \<open>r\<close> and then ends: it fills a
  buffer of \<open>n\<close> bytes or fails.\<close>

definition ReadFull :: "bytes \<Rightarrow> nat \<Rightarrow> error + bytes" where
  "ReadFull r n = (if n \<le> length r then Inr (take n r) else Inl (Error ''unexpected EOF''))"

definition validateKey :: "'p hmacDeps \<Rightarrow> HmacKey \<Rightarrow> error option" where
  "validateKey deps key =
     (case ValidateKeyVersion (HmacKey.Version key) hmacKeyVersion of
        Some err \<Rightarrow> Some (Error (''hmac_key_manager: invalid version: '' @ message err))
      | None \<Rightarrow>
          let keySize = (word_of_nat (length (KeyValue key)) :: 32 word);
              hash = HashType_name deps (GetHash (HmacKey.Params key))
          in ValidateHMACParams deps hash keySize (GetTagSize (HmacKey.Params key)))"

definition validateKeyFormat :: "'p hmacDeps \<Rightarrow> HmacKeyFormat \<Rightarrow> error option" where
  "validateKeyFormat deps format =
     (let hash = HashType_name deps (GetHash (HmacKeyFormat.Params format))
      in ValidateHMACParams deps hash (KeySize format) (GetTagSize (HmacKeyFormat.Params format)))"

definition hmacKeyManager_Primitive :: "'p hmacDeps \<Rightarrow> bytes \<Rightarrow> error + 'p" where
  "hmacKeyManager_Primitive deps serializedKey =
     (if length serializedKey = 0 then Inl errInvalidHMACKey
      else case Unmarshal_HmacKey deps serializedKey of
        Inl err \<Rightarrow> Inl errInvalidHMACKey
      | Inr key \<Rightarrow>
          (case validateKey deps key of
             Some err \<Rightarrow> Inl err
           | None \<Rightarrow>
               let hash = HashType_name deps (GetHash (HmacKey.Params key)) in
               (case NewHMAC deps hash (KeyValue key) (GetTagSize (HmacKey.Params key)) of
                  Inl err \<Rightarrow> Inl err
                | Inr hmac \<Rightarrow> Inr hmac)))"

definition hmacKeyManager_NewKey :: "'p hmacDeps \<Rightarrow> bytes \<Rightarrow> error + HmacKey" where
  "hmacKeyManager_NewKey deps serializedKeyFormat =
     (if length serializedKeyFormat = 0 then Inl errInvalidHMACKeyFormat
      else case Unmarshal_HmacKeyFormat deps serializedKeyFormat of
        Inl err \<Rightarrow> Inl errInvalidHMACKeyFormat
      | Inr keyFormat \<Rightarrow>
          (case validateKeyFormat deps keyFormat of
             Some err \<Rightarrow> Inl (Error (''hmac_key_manager: invalid key format: '' @ message err))
           | None \<Rightarrow>
               let keyValue = GetRandomBytes deps (KeySize keyFormat) in
               Inr \<lparr>HmacKey.Version = hmacKeyVersion,
                    HmacKey.Params = HmacKeyFormat.Params keyFormat,
                    KeyValue = keyValue\<rparr>))"

definition hmacKeyManager_KeyMaterialType :: KeyMaterialType where
  "hmacKeyManager_KeyMaterialType = SYMMETRIC"

definition hmacKeyManager_NewKeyData :: "'p hmacDeps \<Rightarrow> bytes \<Rightarrow> error + KeyData" where
  "hmacKeyManager_NewKeyData deps serializedKeyFormat =
     (case hmacKeyManager_NewKey deps serializedKeyFormat of
        Inl err \<Rightarrow> Inl err
      | Inr key \<Rightarrow>
          (case Marshal_HmacKey deps key of
             Inl err \<Rightarrow> Inl errInvalidHMACKeyFormat
           | Inr serializedKey \<Rightarrow>
               Inr \<lparr>TypeUrl = hmacTypeURL, Value = serializedKey,
                    KeyMaterialType = hmacKeyManager_KeyMaterialType\<rparr>))"

definition hmacKeyManager_DeriveKey :: "'p hmacDeps \<Rightarrow> bytes \<Rightarrow> bytes \<Rightarrow> error + HmacKey" where
  "hmacKeyManager_DeriveKey deps serializedKeyFormat pseudorandomness =
     (if length serializedKeyFormat = 0 then Inl errInvalidHMACKeyFormat
      else case Unmarshal_HmacKeyFormat deps serializedKeyFormat of
        Inl err \<Rightarrow> Inl errInvalidHMACKeyFormat
      | Inr keyFormat \<Rightarrow>
          (case validateKeyFormat deps keyFormat of
             Some err \<Rightarrow> Inl (Error (''hmac_key_manager: invalid key format: '' @ message err))
           | None \<Rightarrow>
               (case ValidateKeyVersion (HmacKeyFormat.Version keyFormat) hmacKeyVersion of
                  Some err \<Rightarrow>
                    Inl (Error (''hmac_key_manager: invalid key version: '' @ message err))
                | None \<Rightarrow>
                    (case ReadFull pseudorandomness (unat (KeySize keyFormat)) of
                       Inl err \<Rightarrow>
                         Inl (Error ''hmac_key_manager: not enough pseudorandomness given'')
                     | Inr keyValue \<Rightarrow>
                         Inr \<lparr>HmacKey.Version = hmacKeyVersion,
                              HmacKey.Params = HmacKeyFormat.Params keyFormat,
                              KeyValue = keyValue\<rparr>))))"

subsection \<open>The constructor's contract and concrete dependencies\<close>

text \<open>\<^verbatim>\<open>subtle.NewHMAC\<close> is outside the sources. Its contract towards the key manager:
  it accepts every key and tag size that \<^verbatim>\<open>ValidateHMACParams\<close> accepts.\<close>

definition constructorAgrees :: "'p hmacDeps \<Rightarrow> bool" where
  "constructorAgrees deps \<longleftrightarrow>
     (\<forall>hash key tagSize.
        ValidateHMACParams deps hash (word_of_nat (length key)) tagSize = None \<longrightarrow>
        (\<exists>h. NewHMAC deps hash key tagSize = Inr h))"

fun decodeHash :: "byte \<Rightarrow> HashType" where
  "decodeHash b = (if b = 1 then SHA1 else if b = 2 then SHA224 else if b = 3 then SHA256
                   else if b = 4 then SHA384 else if b = 5 then SHA512 else UNKNOWN_HASH)"

fun toyUnmarshalKey :: "bytes \<Rightarrow> error + HmacKey" where
  "toyUnmarshalKey (v # h # t # kv) =
     Inr \<lparr>HmacKey.Version = ucast v,
          HmacKey.Params = Some \<lparr>Hash = decodeHash h, TagSize = ucast t\<rparr>,
          KeyValue = kv\<rparr>"
| "toyUnmarshalKey bs = Inl (Error ''proto: cannot parse invalid wire-format data'')"

fun toyUnmarshalFormat :: "bytes \<Rightarrow> error + HmacKeyFormat" where
  "toyUnmarshalFormat [h, t, k, v] =
     Inr \<lparr>HmacKeyFormat.Params = Some \<lparr>Hash = decodeHash h, TagSize = ucast t\<rparr>,
          KeySize = ucast k, HmacKeyFormat.Version = ucast v\<rparr>"
| "toyUnmarshalFormat bs = Inl (Error ''proto: cannot parse invalid wire-format data'')"

fun toyHashName :: "HashType \<Rightarrow> string" where
  "toyHashName UNKNOWN_HASH = ''UNKNOWN_HASH''"
| "toyHashName SHA1 = ''SHA1''"
| "toyHashName SHA224 = ''SHA224''"
| "toyHashName SHA256 = ''SHA256''"
| "toyHashName SHA384 = ''SHA384''"
| "toyHashName SHA512 = ''SHA512''"

definition toyDigestSize :: "string \<Rightarrow> 32 word option" where
  "toyDigestSize hash =
     (if hash = ''SHA1'' then Some 20 else if hash = ''SHA224'' then Some 28
      else if hash = ''SHA256'' then Some 32 else if hash = ''SHA384'' then Some 48
      else if hash = ''SHA512'' then Some 64 else None)"

definition toyValidateHMACParams :: "string \<Rightarrow> 32 word \<Rightarrow> 32 word \<Rightarrow> error option" where
  "toyValidateHMACParams hash keySize tagSize =
     (case toyDigestSize hash of
        None \<Rightarrow> Some (Error ''invalid hash algorithm'')
      | Some digestSize \<Rightarrow>
          if digestSize < tagSize then Some (Error ''tag size too big'')
          else if tagSize < 10 then Some (Error ''tag size too small'')
          else if keySize < 16 then Some (Error ''key too short'')
          else None)"

definition toyNewHMAC :: "string \<Rightarrow> bytes \<Rightarrow> 32 word \<Rightarrow> error + (string \<times> bytes \<times> 32 word)" where
  "toyNewHMAC hash key tagSize =
     (case toyValidateHMACParams hash (word_of_nat (length key)) tagSize of
        Some err \<Rightarrow> Inl (Error (''hmac: '' @ message err))
      | None \<Rightarrow> Inr (hash, key, tagSize))"

definition toyDeps :: "(string \<times> bytes \<times> 32 word) hmacDeps" where
  "toyDeps = \<lparr>Unmarshal_HmacKey = toyUnmarshalKey,
              Unmarshal_HmacKeyFormat = toyUnmarshalFormat,
              Marshal_HmacKey = (\<lambda>key. Inr (ucast (HmacKey.Version key) # KeyValue key)),
              HashType_name = toyHashName,
              ValidateHMACParams = toyValidateHMACParams,
              NewHMAC = toyNewHMAC,
              GetRandomBytes = (\<lambda>n. replicate (unat n) 42)\<rparr>"

definition key16 :: bytes where
  "key16 = [1, 2, 3, 4, 5, 6, 7, 8, 9, 10, 11, 12, 13, 14, 15, 16]"


definition stream20 :: bytes where
  "stream20 = [101, 102, 103, 104, 105, 106, 107, 108, 109, 110,
               111, 112, 113, 114, 115, 116, 117, 118, 119, 120]"


section \<open>XChaCha20-Poly1305\<close>

text \<open>The interface \<^verbatim>\<open>cipher.AEAD\<close> that \<^verbatim>\<open>chacha20poly1305.NewX\<close> returns:
  \<^verbatim>\<open>Seal(dst, nonce, plaintext, additionalData)\<close> appends the ciphertext to \<open>dst\<close>,
  \<^verbatim>\<open>Open(dst, nonce, ciphertext, additionalData)\<close> appends the plaintext or fails.\<close>

record cipherAEAD =
  Overhead :: nat
  Seal :: "bytes \<Rightarrow> bytes \<Rightarrow> bytes \<Rightarrow> bytes \<Rightarrow> bytes"
  Open :: "bytes \<Rightarrow> bytes \<Rightarrow> bytes \<Rightarrow> bytes \<Rightarrow> error + bytes"

text \<open>What the type uses outside the sources: the constructor of the library cipher, the
  random source, and the two package constants \<^verbatim>\<open>maxInt\<close> and \<^verbatim>\<open>poly1305TagSize\<close>,
  which another file of package \<^verbatim>\<open>subtle\<close> declares. They are parameters of the
  model.\<close>

record chachaDeps =
  chacha20poly1305_NewX :: "bytes \<Rightarrow> error + cipherAEAD"
  random_GetRandomBytes :: "nat \<Rightarrow> bytes"
  subtle_maxInt :: int
  poly1305TagSize :: nat

text \<open>The constants \<^verbatim>\<open>chacha20poly1305.KeySize\<close> and \<^verbatim>\<open>chacha20poly1305.NonceSizeX\<close>
  of the library.\<close>

definition chacha20poly1305_KeySize :: nat where
  "chacha20poly1305_KeySize = 32"

definition chacha20poly1305_NonceSizeX :: nat where
  "chacha20poly1305_NonceSizeX = 24"

record XChaCha20Poly1305 =
  Key :: bytes

text \<open>The calls made on the library, in order.\<close>

datatype CipherCall =
    CallNewX bytes
  | CallSeal bytes bytes bytes bytes
  | CallOpen bytes bytes bytes bytes

definition NewXChaCha20Poly1305 :: "bytes \<Rightarrow> error + XChaCha20Poly1305" where
  "NewXChaCha20Poly1305 key =
     (if length key \<noteq> chacha20poly1305_KeySize
      then Inl (Error ''xchacha20poly1305: bad key length'')
      else Inr \<lparr>Key = key\<rparr>)"

definition XChaCha20Poly1305_Encrypt ::
  "chachaDeps \<Rightarrow> XChaCha20Poly1305 \<Rightarrow> bytes \<Rightarrow> bytes \<Rightarrow> (error + bytes) \<times> CipherCall list" where
  "XChaCha20Poly1305_Encrypt deps x plaintext associatedData =
     (if subtle_maxInt deps - int chacha20poly1305_NonceSizeX - int (poly1305TagSize deps)
           < int (length plaintext)
      then (Inl (Error ''xchacha20poly1305: plaintext too long''), [])
      else case chacha20poly1305_NewX deps (Key x) of
        Inl err \<Rightarrow> (Inl err, [CallNewX (Key x)])
      | Inr c \<Rightarrow>
          let nounce = random_GetRandomBytes deps chacha20poly1305_NonceSizeX;
              dst = [] @ nounce
          in (Inr (Seal c dst nounce plaintext associatedData),
              [CallNewX (Key x), CallSeal dst nounce plaintext associatedData]))"

definition XChaCha20Poly1305_Decrypt ::
  "chachaDeps \<Rightarrow> XChaCha20Poly1305 \<Rightarrow> bytes \<Rightarrow> bytes \<Rightarrow> (error + bytes) \<times> CipherCall list" where
  "XChaCha20Poly1305_Decrypt deps x ciphertext associatedData =
     (if length ciphertext < chacha20poly1305_NonceSizeX + poly1305TagSize deps
      then (Inl (Error ''xchacha20poly1305: ciphertext too short''), [])
      else case chacha20poly1305_NewX deps (Key x) of
        Inl err \<Rightarrow> (Inl err, [CallNewX (Key x)])
      | Inr c \<Rightarrow>
          let n = take chacha20poly1305_NonceSizeX ciphertext;
              body = drop chacha20poly1305_NonceSizeX ciphertext;
              trace = [CallNewX (Key x), CallOpen [] n body associatedData]
          in (case Open c [] n body associatedData of
                Inl err \<Rightarrow> (Inl (Error (''XChaCha20Poly1305.Decrypt: '' @ message err)), trace)
              | Inr pt \<Rightarrow> (Inr pt, trace)))"

text \<open>The contract of the library cipher: for a nonce of 24 bytes \<^verbatim>\<open>Seal\<close> appends to
  \<open>dst\<close> a ciphertext that is \<^verbatim>\<open>Overhead()\<close> bytes longer than the plaintext and
  that \<^verbatim>\<open>Open\<close>, under the same nonce and associated data, turns back into the
  plaintext. \<^verbatim>\<open>NewX\<close> accepts every 32-byte key, and the overhead of its cipher is the
  Poly1305 tag, whose size the package constant names; the random source returns as many
  bytes as asked.\<close>

definition sealOpenContract :: "cipherAEAD \<Rightarrow> bool" where
  "sealOpenContract c \<longleftrightarrow>
     (\<forall>dst nonce pt ad. length nonce = chacha20poly1305_NonceSizeX \<longrightarrow>
        (\<exists>ct. Seal c dst nonce pt ad = dst @ ct \<and> length ct = length pt + Overhead c \<and>
              Open c [] nonce ct ad = Inr pt))"

definition chachaContract :: "chachaDeps \<Rightarrow> bool" where
  "chachaContract deps \<longleftrightarrow>
     (\<forall>key. length key = chacha20poly1305_KeySize \<longrightarrow>
        (\<exists>c. chacha20poly1305_NewX deps key = Inr c \<and> sealOpenContract c \<and>
             Overhead c = poly1305TagSize deps)) \<and>
     (\<forall>n. length (random_GetRandomBytes deps n) = n)"

text \<open>A toy cipher for concrete runs: the ciphertext is the plaintext followed by a
  16-byte tag made of the lengths of key, nonce and associated data.\<close>

definition toyTag :: "bytes \<Rightarrow> bytes \<Rightarrow> bytes \<Rightarrow> bytes" where
  "toyTag key nonce ad = replicate 16 (word_of_nat (length key + length nonce + length ad))"

definition toyCipher :: "bytes \<Rightarrow> cipherAEAD" where
  "toyCipher key =
     \<lparr>Overhead = 16,
      Seal = (\<lambda>dst nonce pt ad. dst @ pt @ toyTag key nonce ad),
      Open = (\<lambda>dst nonce ct ad.
                if 16 \<le> length ct \<and> drop (length ct - 16) ct = toyTag key nonce ad
                then Inr (dst @ take (length ct - 16) ct)
                else Inl (Error ''chacha20poly1305: message authentication failed''))\<rparr>"

definition toyChacha :: chachaDeps where
  "toyChacha =
     \<lparr>chacha20poly1305_NewX =
        (\<lambda>key. if length key \<noteq> 32 then Inl (Error ''chacha20poly1305: bad key length'')
               else Inr (toyCipher key)),
      random_GetRandomBytes = (\<lambda>n. replicate n 7),
      subtle_maxInt = 9223372036854775807,
      poly1305TagSize = 16\<rparr>"


section \<open>Key templates\<close>

text \<open>Modelled from the spec: the enumerations and message types of the generated protobuf
  packages (\<^verbatim>\<open>hpkepb\<close>, \<^verbatim>\<open>eciespb\<close>, \<^verbatim>\<open>ecdsapb\<close>, \<^verbatim>\<open>rsppb\<close>, \<^verbatim>\<open>rspsspb\<close>,
  \<^verbatim>\<open>aspb\<close>, \<^verbatim>\<open>commonpb\<close>, \<^verbatim>\<open>tinkpb\<close>), which are outside the sources; each
  format ``carries a params submessage plus algorithm-specific sizing fields''. The
  enumerations list the values the template files use.\<close>

datatype HpkeKem = DHKEM_P256_HKDF_SHA256 | DHKEM_X25519_HKDF_SHA256
datatype HpkeKdf = HKDF_SHA256
datatype HpkeAead = AES_128_GCM | AES_256_GCM | CHACHA20_POLY1305
datatype EllipticCurveType = NIST_P256 | NIST_P384 | NIST_P521
datatype EcPointFormat = UNCOMPRESSED
datatype EcdsaSignatureEncoding = DER | IEEE_P1363

record KeyTemplate =
  TypeUrl :: string
  Value :: bytes
  OutputPrefixType :: OutputPrefixType

record HpkeParams =
  Kem :: HpkeKem
  Kdf :: HpkeKdf
  Aead :: HpkeAead

record HpkeKeyFormat =
  Params :: HpkeParams

record EciesHkdfKemParams =
  CurveType :: EllipticCurveType
  HkdfHashType :: HashType
  HkdfSalt :: bytes

record EciesAeadDemParams =
  AeadDem :: KeyTemplate

record EciesAeadHkdfParams =
  KemParams :: EciesHkdfKemParams
  DemParams :: EciesAeadDemParams
  EcPointFormat :: EcPointFormat

record EciesAeadHkdfKeyFormat =
  Params :: EciesAeadHkdfParams

record EcdsaParams =
  HashType :: HashType
  Curve :: EllipticCurveType
  Encoding :: EcdsaSignatureEncoding

record EcdsaKeyFormat =
  Params :: EcdsaParams

record RsaSsaPkcs1Params =
  HashType :: HashType

record RsaSsaPkcs1KeyFormat =
  Params :: RsaSsaPkcs1Params
  ModulusSizeInBits :: "32 word"
  PublicExponent :: bytes

record RsaSsaPssParams =
  SigHash :: HashType
  Mgf1Hash :: HashType
  SaltLength :: "32 word"

record RsaSsaPssKeyFormat =
  Params :: RsaSsaPssParams
  ModulusSizeInBits :: "32 word"
  PublicExponent :: bytes

record AesSivKeyFormat =
  KeySize :: "32 word"

text \<open>\<^verbatim>\<open>proto.Marshal\<close> takes any message; the messages the template files serialize:\<close>

datatype Message =
    HpkeKeyFormatMsg HpkeKeyFormat
  | EciesAeadHkdfKeyFormatMsg EciesAeadHkdfKeyFormat
  | EcdsaKeyFormatMsg EcdsaKeyFormat
  | RsaSsaPkcs1KeyFormatMsg RsaSsaPkcs1KeyFormat
  | RsaSsaPssKeyFormatMsg RsaSsaPssKeyFormat
  | AesSivKeyFormatMsg AesSivKeyFormat

type_synonym marshaller = "Message \<Rightarrow> error + bytes"

text \<open>Modelled from the spec: \<^verbatim>\<open>tinkerror.Fail\<close>, which is outside the sources
  (``serialization failures are fatal to the process''). A factory either ends the process
  with a message or returns its template.\<close>

datatype factoryResult = ProcessAborted string | Returns KeyTemplate


subsection \<open>Hybrid encryption templates\<close>

text \<open>Modelled from the spec: the constant \<^verbatim>\<open>hpkePrivateKeyTypeURL\<close>, declared in another
  file of package \<^verbatim>\<open>hybrid\<close> (type URLs are
  \<^verbatim>\<open>"type.googleapis.com/google.crypto.tink.<Name>Key"\<close>).\<close>

definition hpkePrivateKeyTypeURL :: string where
  "hpkePrivateKeyTypeURL = ''type.googleapis.com/google.crypto.tink.HpkePrivateKey''"

definition createHPKEKeyTemplate ::
  "marshaller \<Rightarrow> HpkeKem \<Rightarrow> HpkeKdf \<Rightarrow> HpkeAead \<Rightarrow> OutputPrefixType \<Rightarrow> factoryResult" where
  "createHPKEKeyTemplate marshal kem kdf aead outputPrefixType =
     (let format = \<lparr>HpkeKeyFormat.Params = \<lparr>Kem = kem, Kdf = kdf, Aead = aead\<rparr>\<rparr> in
      case marshal (HpkeKeyFormatMsg format) of
        Inl err \<Rightarrow> ProcessAborted (''failed to marshal key format: '' @ message err)
      | Inr serializedFormat \<Rightarrow>
          Returns \<lparr>TypeUrl = hpkePrivateKeyTypeURL, Value = serializedFormat,
                   OutputPrefixType = outputPrefixType\<rparr>)"

definition createECIESAEADHKDFKeyTemplate ::
  "marshaller \<Rightarrow> EllipticCurveType \<Rightarrow> HashType \<Rightarrow> EcPointFormat \<Rightarrow> KeyTemplate \<Rightarrow> bytes
     \<Rightarrow> factoryResult" where
  "createECIESAEADHKDFKeyTemplate marshal c ht ptfmt dekT salt =
     (let format = \<lparr>EciesAeadHkdfKeyFormat.Params =
            \<lparr>KemParams = \<lparr>CurveType = c, HkdfHashType = ht, HkdfSalt = salt\<rparr>,
             DemParams = \<lparr>AeadDem = dekT\<rparr>,
             EcPointFormat = ptfmt\<rparr>\<rparr> in
      case marshal (EciesAeadHkdfKeyFormatMsg format) of
        Inl err \<Rightarrow> ProcessAborted (''failed to marshal key format: '' @ message err)
      | Inr serializedFormat \<Rightarrow>
          Returns \<lparr>TypeUrl = ''type.googleapis.com/google.crypto.tink.EciesAeadHkdfPrivateKey'',
                   Value = serializedFormat,
                   OutputPrefixType = TINK\<rparr>)"

text \<open>The two ECIES factories pass a template of package \<^verbatim>\<open>aead\<close>
  (\<^verbatim>\<open>aead.AES128GCMKeyTemplate()\<close>, \<^verbatim>\<open>aead.AES128CTRHMACSHA256KeyTemplate()\<close>), which
  is outside the sources: it is the parameter \<open>dekT\<close>.\<close>

definition ECIESHKDFAES128GCMKeyTemplate :: "marshaller \<Rightarrow> KeyTemplate \<Rightarrow> factoryResult" where
  "ECIESHKDFAES128GCMKeyTemplate marshal dekT =
     (let salt = [] in
      createECIESAEADHKDFKeyTemplate marshal NIST_P256 SHA256 UNCOMPRESSED dekT salt)"

definition ECIESHKDFAES128CTRHMACSHA256KeyTemplate ::
  "marshaller \<Rightarrow> KeyTemplate \<Rightarrow> factoryResult" where
  "ECIESHKDFAES128CTRHMACSHA256KeyTemplate marshal dekT =
     (let salt = [] in
      createECIESAEADHKDFKeyTemplate marshal NIST_P256 SHA256 UNCOMPRESSED dekT salt)"

subsection \<open>Signature templates\<close>

definition ed25519SignerTypeURL :: string where
  "ed25519SignerTypeURL = ''type.googleapis.com/google.crypto.tink.Ed25519PrivateKey''"

definition ecdsaSignerTypeURL :: string where
  "ecdsaSignerTypeURL = ''type.googleapis.com/google.crypto.tink.EcdsaPrivateKey''"

definition rsaSSAPKCS1SignerTypeURL :: string where
  "rsaSSAPKCS1SignerTypeURL = ''type.googleapis.com/google.crypto.tink.RsaSsaPkcs1PrivateKey''"

definition rsaSSAPSSSignerTypeURL :: string where
  "rsaSSAPSSSignerTypeURL = ''type.googleapis.com/google.crypto.tink.RsaSsaPssPrivateKey''"

definition createECDSAKeyTemplate ::
  "marshaller \<Rightarrow> HashType \<Rightarrow> EllipticCurveType \<Rightarrow> EcdsaSignatureEncoding \<Rightarrow> OutputPrefixType
     \<Rightarrow> factoryResult" where
  "createECDSAKeyTemplate marshal hashType curve encoding prefixType =
     (let params = \<lparr>EcdsaParams.HashType = hashType, Curve = curve, Encoding = encoding\<rparr>;
          format = \<lparr>EcdsaKeyFormat.Params = params\<rparr> in
      case marshal (EcdsaKeyFormatMsg format) of
        Inl err \<Rightarrow> ProcessAborted (''failed to marshal key format: '' @ message err)
      | Inr serializedFormat \<Rightarrow>
          Returns \<lparr>TypeUrl = ecdsaSignerTypeURL, Value = serializedFormat,
                   OutputPrefixType = prefixType\<rparr>)"

text \<open>The two ED25519 factories serialize nothing: the template's \<^verbatim>\<open>Value\<close> is left
  unset, that is, empty.\<close>

definition ED25519KeyTemplate :: factoryResult where
  "ED25519KeyTemplate =
     Returns \<lparr>TypeUrl = ed25519SignerTypeURL, Value = [], OutputPrefixType = TINK\<rparr>"

definition ED25519KeyWithoutPrefixTemplate :: factoryResult where
  "ED25519KeyWithoutPrefixTemplate =
     Returns \<lparr>TypeUrl = ed25519SignerTypeURL, Value = [], OutputPrefixType = RAW\<rparr>"

definition create_RSA_SSA_PKCS1_Template ::
  "marshaller \<Rightarrow> OutputPrefixType \<Rightarrow> HashType \<Rightarrow> 32 word \<Rightarrow> factoryResult" where
  "create_RSA_SSA_PKCS1_Template marshal prefixType hashType modulusSizeInBits =
     (let keyFormat = \<lparr>RsaSsaPkcs1KeyFormat.Params = \<lparr>RsaSsaPkcs1Params.HashType = hashType\<rparr>,
                       RsaSsaPkcs1KeyFormat.ModulusSizeInBits = modulusSizeInBits,
                       RsaSsaPkcs1KeyFormat.PublicExponent = [0x01, 0x00, 0x01]\<rparr> in
      case marshal (RsaSsaPkcs1KeyFormatMsg keyFormat) of
        Inl err \<Rightarrow> ProcessAborted (''failed to marshal key format: '' @ message err)
      | Inr serializedFormat \<Rightarrow>
          Returns \<lparr>TypeUrl = rsaSSAPKCS1SignerTypeURL, Value = serializedFormat,
                   OutputPrefixType = prefixType\<rparr>)"

definition create_RSA_SSA_PSS_Template ::
  "marshaller \<Rightarrow> OutputPrefixType \<Rightarrow> HashType \<Rightarrow> 32 word \<Rightarrow> 32 word \<Rightarrow> factoryResult" where
  "create_RSA_SSA_PSS_Template marshal prefixType hashType saltLength modulusSizeInBits =
     (let keyFormat = \<lparr>RsaSsaPssKeyFormat.Params =
                         \<lparr>SigHash = hashType, Mgf1Hash = hashType, SaltLength = saltLength\<rparr>,
                       RsaSsaPssKeyFormat.ModulusSizeInBits = modulusSizeInBits,
                       RsaSsaPssKeyFormat.PublicExponent = [0x01, 0x00, 0x01]\<rparr> in
      case marshal (RsaSsaPssKeyFormatMsg keyFormat) of
        Inl err \<Rightarrow> ProcessAborted (''failed to marshal key format: '' @ message err)
      | Inr serializedFormat \<Rightarrow>
          Returns \<lparr>TypeUrl = rsaSSAPSSSignerTypeURL, Value = serializedFormat,
                   OutputPrefixType = prefixType\<rparr>)"

subsection \<open>Deterministic AEAD template\<close>

definition AESSIVKeyTemplate :: "marshaller \<Rightarrow> factoryResult" where
  "AESSIVKeyTemplate marshal =
     (let format = \<lparr>AesSivKeyFormat.KeySize = 64\<rparr> in
      case marshal (AesSivKeyFormatMsg format) of
        Inl err \<Rightarrow> ProcessAborted (''failed to marshal key format: '' @ message err)
      | Inr serializedFormat \<Rightarrow>
          Returns \<lparr>TypeUrl = ''type.googleapis.com/google.crypto.tink.AesSivKey'',
                   Value = serializedFormat,
                   OutputPrefixType = TINK\<rparr>)"

subsection \<open>The named factories\<close>

definition DHKEM_P256_HKDF_SHA256_HKDF_SHA256_AES_128_GCM_Key_Template :: "marshaller \<Rightarrow> factoryResult" where
  "DHKEM_P256_HKDF_SHA256_HKDF_SHA256_AES_128_GCM_Key_Template marshal =
     createHPKEKeyTemplate marshal DHKEM_P256_HKDF_SHA256 HKDF_SHA256 AES_128_GCM TINK"

definition DHKEM_P256_HKDF_SHA256_HKDF_SHA256_AES_128_GCM_Raw_Key_Template :: "marshaller \<Rightarrow> factoryResult" where
  "DHKEM_P256_HKDF_SHA256_HKDF_SHA256_AES_128_GCM_Raw_Key_Template marshal =
     createHPKEKeyTemplate marshal DHKEM_P256_HKDF_SHA256 HKDF_SHA256 AES_128_GCM RAW"

definition DHKEM_P256_HKDF_SHA256_HKDF_SHA256_AES_256_GCM_Key_Template :: "marshaller \<Rightarrow> factoryResult" where
  "DHKEM_P256_HKDF_SHA256_HKDF_SHA256_AES_256_GCM_Key_Template marshal =
     createHPKEKeyTemplate marshal DHKEM_P256_HKDF_SHA256 HKDF_SHA256 AES_256_GCM TINK"

definition DHKEM_P256_HKDF_SHA256_HKDF_SHA256_AES_256_GCM_Raw_Key_Template :: "marshaller \<Rightarrow> factoryResult" where
  "DHKEM_P256_HKDF_SHA256_HKDF_SHA256_AES_256_GCM_Raw_Key_Template marshal =
     createHPKEKeyTemplate marshal DHKEM_P256_HKDF_SHA256 HKDF_SHA256 AES_256_GCM RAW"

definition DHKEM_X25519_HKDF_SHA256_HKDF_SHA256_AES_128_GCM_Key_Template :: "marshaller \<Rightarrow> factoryResult" where
  "DHKEM_X25519_HKDF_SHA256_HKDF_SHA256_AES_128_GCM_Key_Template marshal =
     createHPKEKeyTemplate marshal DHKEM_X25519_HKDF_SHA256 HKDF_SHA256 AES_128_GCM TINK"

definition DHKEM_X25519_HKDF_SHA256_HKDF_SHA256_AES_128_GCM_Raw_Key_Template :: "marshaller \<Rightarrow> factoryResult" where
  "DHKEM_X25519_HKDF_SHA256_HKDF_SHA256_AES_128_GCM_Raw_Key_Template marshal =
     createHPKEKeyTemplate marshal DHKEM_X25519_HKDF_SHA256 HKDF_SHA256 AES_128_GCM RAW"

definition DHKEM_X25519_HKDF_SHA256_HKDF_SHA256_AES_256_GCM_Key_Template :: "marshaller \<Rightarrow> factoryResult" where
  "DHKEM_X25519_HKDF_SHA256_HKDF_SHA256_AES_256_GCM_Key_Template marshal =
     createHPKEKeyTemplate marshal DHKEM_X25519_HKDF_SHA256 HKDF_SHA256 AES_256_GCM TINK"

definition DHKEM_X25519_HKDF_SHA256_HKDF_SHA256_AES_256_GCM_Raw_Key_Template :: "marshaller \<Rightarrow> factoryResult" where
  "DHKEM_X25519_HKDF_SHA256_HKDF_SHA256_AES_256_GCM_Raw_Key_Template marshal =
     createHPKEKeyTemplate marshal DHKEM_X25519_HKDF_SHA256 HKDF_SHA256 AES_256_GCM RAW"

definition DHKEM_X25519_HKDF_SHA256_HKDF_SHA256_CHACHA20_POLY1305_Key_Template :: "marshaller \<Rightarrow> factoryResult" where
  "DHKEM_X25519_HKDF_SHA256_HKDF_SHA256_CHACHA20_POLY1305_Key_Template marshal =
     createHPKEKeyTemplate marshal DHKEM_X25519_HKDF_SHA256 HKDF_SHA256 CHACHA20_POLY1305 TINK"

definition DHKEM_X25519_HKDF_SHA256_HKDF_SHA256_CHACHA20_POLY1305_Raw_Key_Template :: "marshaller \<Rightarrow> factoryResult" where
  "DHKEM_X25519_HKDF_SHA256_HKDF_SHA256_CHACHA20_POLY1305_Raw_Key_Template marshal =
     createHPKEKeyTemplate marshal DHKEM_X25519_HKDF_SHA256 HKDF_SHA256 CHACHA20_POLY1305 RAW"

definition ECDSAP256KeyTemplate :: "marshaller \<Rightarrow> factoryResult" where
  "ECDSAP256KeyTemplate marshal =
     createECDSAKeyTemplate marshal SHA256 NIST_P256 DER TINK"

definition ECDSAP256KeyWithoutPrefixTemplate :: "marshaller \<Rightarrow> factoryResult" where
  "ECDSAP256KeyWithoutPrefixTemplate marshal =
     createECDSAKeyTemplate marshal SHA256 NIST_P256 DER RAW"

definition ECDSAP256RawKeyTemplate :: "marshaller \<Rightarrow> factoryResult" where
  "ECDSAP256RawKeyTemplate marshal =
     createECDSAKeyTemplate marshal SHA256 NIST_P256 IEEE_P1363 RAW"

definition ECDSAP384SHA384KeyTemplate :: "marshaller \<Rightarrow> factoryResult" where
  "ECDSAP384SHA384KeyTemplate marshal =
     createECDSAKeyTemplate marshal SHA384 NIST_P384 DER TINK"

definition ECDSAP384SHA384KeyWithoutPrefixTemplate :: "marshaller \<Rightarrow> factoryResult" where
  "ECDSAP384SHA384KeyWithoutPrefixTemplate marshal =
     createECDSAKeyTemplate marshal SHA384 NIST_P384 DER RAW"

definition ECDSAP384SHA512KeyTemplate :: "marshaller \<Rightarrow> factoryResult" where
  "ECDSAP384SHA512KeyTemplate marshal =
     createECDSAKeyTemplate marshal SHA512 NIST_P384 DER TINK"

definition ECDSAP384KeyWithoutPrefixTemplate :: "marshaller \<Rightarrow> factoryResult" where
  "ECDSAP384KeyWithoutPrefixTemplate marshal =
     createECDSAKeyTemplate marshal SHA512 NIST_P384 DER RAW"

definition ECDSAP521KeyTemplate :: "marshaller \<Rightarrow> factoryResult" where
  "ECDSAP521KeyTemplate marshal =
     createECDSAKeyTemplate marshal SHA512 NIST_P521 DER TINK"

definition ECDSAP521KeyWithoutPrefixTemplate :: "marshaller \<Rightarrow> factoryResult" where
  "ECDSAP521KeyWithoutPrefixTemplate marshal =
     createECDSAKeyTemplate marshal SHA512 NIST_P521 DER RAW"

definition RSA_SSA_PKCS1_3072_SHA256_F4_Key_Template :: "marshaller \<Rightarrow> factoryResult" where
  "RSA_SSA_PKCS1_3072_SHA256_F4_Key_Template marshal =
     create_RSA_SSA_PKCS1_Template marshal TINK SHA256 3072"

definition RSA_SSA_PKCS1_3072_SHA256_F4_RAW_Key_Template :: "marshaller \<Rightarrow> factoryResult" where
  "RSA_SSA_PKCS1_3072_SHA256_F4_RAW_Key_Template marshal =
     create_RSA_SSA_PKCS1_Template marshal RAW SHA256 3072"

definition RSA_SSA_PKCS1_4096_SHA512_F4_Key_Template :: "marshaller \<Rightarrow> factoryResult" where
  "RSA_SSA_PKCS1_4096_SHA512_F4_Key_Template marshal =
     create_RSA_SSA_PKCS1_Template marshal TINK SHA512 4096"

definition RSA_SSA_PKCS1_4096_SHA512_F4_RAW_Key_Template :: "marshaller \<Rightarrow> factoryResult" where
  "RSA_SSA_PKCS1_4096_SHA512_F4_RAW_Key_Template marshal =
     create_RSA_SSA_PKCS1_Template marshal RAW SHA512 4096"

definition RSA_SSA_PSS_3072_SHA256_32_F4_Key_Template :: "marshaller \<Rightarrow> factoryResult" where
  "RSA_SSA_PSS_3072_SHA256_32_F4_Key_Template marshal =
     create_RSA_SSA_PSS_Template marshal TINK SHA256 32 3072"

definition RSA_SSA_PSS_3072_SHA256_32_F4_Raw_Key_Template :: "marshaller \<Rightarrow> factoryResult" where
  "RSA_SSA_PSS_3072_SHA256_32_F4_Raw_Key_Template marshal =
     create_RSA_SSA_PSS_Template marshal RAW SHA256 32 3072"

definition RSA_SSA_PSS_4096_SHA512_64_F4_Key_Template :: "marshaller \<Rightarrow> factoryResult" where
  "RSA_SSA_PSS_4096_SHA512_64_F4_Key_Template marshal =
     create_RSA_SSA_PSS_Template marshal TINK SHA512 64 4096"

definition RSA_SSA_PSS_4096_SHA512_64_F4_Raw_Key_Template :: "marshaller \<Rightarrow> factoryResult" where
  "RSA_SSA_PSS_4096_SHA512_64_F4_Raw_Key_Template marshal =
     create_RSA_SSA_PSS_Template marshal RAW SHA512 64 4096"

subsection \<open>The outcome of a factory\<close>

text \<open>What the specification says of a factory, for the format it serializes, its type URL
  and its output prefix type: when serialization fails the process is aborted; otherwise the
  factory returns the template made of the type URL, the serialized format and the prefix
  type.\<close>

definition templateOutcome ::
  "marshaller \<Rightarrow> Message \<Rightarrow> string \<Rightarrow> OutputPrefixType \<Rightarrow> factoryResult \<Rightarrow> bool" where
  "templateOutcome marshal format typeUrl prefixType r =
     (case marshal format of
        Inl err \<Rightarrow> (\<exists>msg. r = ProcessAborted msg)
      | Inr serializedFormat \<Rightarrow>
          r = Returns \<lparr>TypeUrl = typeUrl, Value = serializedFormat,
                       OutputPrefixType = prefixType\<rparr>)"

definition failingMarshal :: marshaller where
  "failingMarshal m = Inl (Error ''proto: required field not set'')"

definition constMarshal :: marshaller where
  "constMarshal m = Inr [10, 2, 8, 1]"



section \<open>Verification: the wrapped MAC\<close>

subsection \<open>Constants and the prefix formula\<close>

lemma intSize_64: "intSize 64 = 64"
  by (simp add: intSize_def drop_bit_eq_div push_bit_eq_mult)

lemma intSize_32: "intSize 32 = 32"
  by (simp add: intSize_def drop_bit_eq_div push_bit_eq_mult)

lemma maxInt_64: "maxInt 64 = 9223372036854775807"
  by (simp add: maxInt_def intSize_64 push_bit_eq_mult)

lemma maxInt_32: "maxInt 32 = 2147483647"
  by (simp add: maxInt_def intSize_32 push_bit_eq_mult)

lemma byte_bits_eq:
  fixes k k' :: "32 word"
  assumes "(ucast (drop_bit s k) :: 8 word) = ucast (drop_bit s k')" and "s \<le> n" and "n < s + 8"
  shows "bit k n = bit k' n"
proof -
  have "bit (ucast (drop_bit s k) :: 8 word) (n - s) = bit (ucast (drop_bit s k') :: 8 word) (n - s)"
    using assms(1) by simp
  moreover from assms(2,3) have "n - s < 8" by arith
  ultimately show ?thesis using assms(2)
    by (simp add: bit_ucast_iff bit_drop_bit_eq)
qed

lemma bigEndianUint32_inj:
  assumes "bigEndianUint32 k = bigEndianUint32 k'"
  shows "k = k'"
proof (rule bit_word_eqI)
  fix n assume n: "n < LENGTH(32)"
  from assms have e24: "(ucast (drop_bit 24 k) :: 8 word) = ucast (drop_bit 24 k')"
    and e16: "(ucast (drop_bit 16 k) :: 8 word) = ucast (drop_bit 16 k')"
    and e8: "(ucast (drop_bit 8 k) :: 8 word) = ucast (drop_bit 8 k')"
    and e0: "(ucast (drop_bit 0 k) :: 8 word) = ucast (drop_bit 0 k')"
    by (simp_all add: bigEndianUint32_def)
  consider "n < 8" | "8 \<le> n \<and> n < 16" | "16 \<le> n \<and> n < 24" | "24 \<le> n \<and> n < 32"
    using n by fastforce
  then show "bit k n = bit k' n"
  proof cases
    case 1 then show ?thesis using byte_bits_eq [OF e0, of n] by simp
  next
    case 2 then show ?thesis using byte_bits_eq [OF e8, of n] by simp
  next
    case 3 then show ?thesis using byte_bits_eq [OF e16, of n] by simp
  next
    case 4 then show ?thesis using byte_bits_eq [OF e24, of n] by simp
  qed
qed

lemma outputPrefix_inj:
  "t \<noteq> RAW \<Longrightarrow> t' \<noteq> RAW \<Longrightarrow> outputPrefix t k = outputPrefix t' k' \<Longrightarrow> k = k'"
  by (cases t; cases t') (auto dest: bigEndianUint32_inj)

lemma length_outputPrefix: "t \<noteq> RAW \<Longrightarrow> length (outputPrefix t k) = NonRawPrefixSize"
  by (cases t) (simp_all add: bigEndianUint32_def NonRawPrefixSize_def)

lemma bigEndianUint32_example: "bigEndianUint32 0x01020304 = [1, 2, 3, 4]"
  by (simp add: bigEndianUint32_def drop_bit_eq_div)

lemma bigEndianUint32_one: "bigEndianUint32 1 = [0, 0, 0, 1]"
  by (simp add: bigEndianUint32_def drop_bit_eq_div)

subsection \<open>The two loops of \<^verbatim>\<open>VerifyMAC\<close>\<close>

lemma cur_data_record_call [simp]: "cur_data (record_call c st) = cur_data st"
  by (simp add: record_call_def)

lemma cur_data_log_event [simp]: "cur_data (log_event ev st) = cur_data st"
  by (simp add: log_event_def)

lemma tryNonRawKeys_first_accepts:
  assumes "\<not> (PrefixType e = LEGACY \<and> maxInt ub \<le> length (cur_data st))"
    and "VerifyMAC (Primitive e) t
           (if PrefixType e = LEGACY then cur_data st @ [0] else cur_data st) = None"
  shows "fst (tryNonRawKeys ub t (e # es) st) = Returned None"
  using assms by (auto simp add: Let_def)

text \<open>Without a \<open>LEGACY\<close> entry in the bucket the first loop either accepts or leaves the
  variable \<^verbatim>\<open>data\<close> as it was.\<close>

lemma tryNonRawKeys_no_legacy:
  assumes "\<forall>e \<in> set es. PrefixType e \<noteq> LEGACY"
  shows "fst (tryNonRawKeys ub t es st) = Returned None \<or>
         (fst (tryNonRawKeys ub t es st) = Continue \<and>
          cur_data (snd (tryNonRawKeys ub t es st)) = cur_data st)"
  using assms
proof (induction es arbitrary: st)
  case Nil
  then show ?case by simp
next
  case (Cons e es)
  then have ih: "\<And>st'. fst (tryNonRawKeys ub t es st') = Returned None \<or>
         (fst (tryNonRawKeys ub t es st') = Continue \<and>
          cur_data (snd (tryNonRawKeys ub t es st')) = cur_data st')"
    by simp
  from Cons.prems have nl: "PrefixType e \<noteq> LEGACY" by simp
  show ?case
  proof (cases "VerifyMAC (Primitive e) t (cur_data st)")
    case None
    with nl show ?thesis by (simp add: Let_def)
  next
    case (Some err)
    with nl ih [of "record_call (CallVerifyMAC NonRawKeys (KeyID e) (PrefixType e) t (cur_data st)) st"]
    show ?thesis by (simp add: Let_def)
  qed
qed

lemma tryRawKeys_accepts:
  assumes "e \<in> set es" and "VerifyMAC (Primitive e) mac (cur_data st) = None"
  shows "fst (tryRawKeys mac es st) = Returned None"
  using assms
proof (induction es arbitrary: st)
  case Nil
  then show ?case by simp
next
  case (Cons x xs)
  show ?case
  proof (cases "VerifyMAC (Primitive x) mac (cur_data st)")
    case None
    then show ?thesis by (simp add: Let_def)
  next
    case (Some err)
    with Cons.prems have "e \<in> set xs" by auto
    with Cons.IH [of "record_call (CallVerifyMAC RawKeys (KeyID x) (PrefixType x) mac (cur_data st)) st"]
      Cons.prems(2) Some
    show ?thesis by (simp add: Let_def)
  qed
qed

subsection \<open>Well-formed primitive sets\<close>

text \<open>In a well-formed set the bucket of a non-\<open>RAW\<close> primary starts with the primary:
  an entry sharing its 5-byte prefix shares its key id, and key ids are unique.\<close>

lemma bucket_is_primary:
  assumes wf: "wellFormed s" and nr: "PrefixType (Primary s) \<noteq> RAW"
  shows "\<exists>rest. EntriesForPrefix s (Prefix (Primary s)) = Inr (Primary s # rest)"
proof -
  let ?P = "Primary s"
  from wf have Pin: "?P \<in> entriesOf s" by (simp add: wellFormed_def)
  from wf nr have "\<not> (\<exists>es. RawEntries s = Inr es \<and> ?P \<in> set es)"
    by (auto simp add: wellFormed_def)
  with Pin obtain p es where p: "length p = NonRawPrefixSize"
    and es: "EntriesForPrefix s p = Inr es" and Pes: "?P \<in> set es"
    by (auto simp add: entriesOf_def)
  from wf p es Pes have pp: "Prefix ?P = p" by (auto simp add: wellFormed_def)
  have all: "e = ?P" if "e \<in> set es" for e
  proof -
    from that p es have ein: "e \<in> entriesOf s" by (auto simp add: entriesOf_def)
    from wf p es that have enr: "PrefixType e \<noteq> RAW" and ep: "Prefix e = p"
      by (auto simp add: wellFormed_def)
    from wf ein have "Prefix e = outputPrefix (PrefixType e) (KeyID e)"
      by (simp add: wellFormed_def)
    moreover from wf Pin have "Prefix ?P = outputPrefix (PrefixType ?P) (KeyID ?P)"
      by (simp add: wellFormed_def)
    ultimately have "outputPrefix (PrefixType e) (KeyID e) = outputPrefix (PrefixType ?P) (KeyID ?P)"
      using ep pp by simp
    then have "KeyID e = KeyID ?P" using enr nr by (rule outputPrefix_inj [rotated 2])
    with wf ein Pin show ?thesis by (simp add: wellFormed_def)
  qed
  from Pes obtain x rest where xs: "es = x # rest" by (cases es) auto
  with all [of x] have "es = ?P # rest" by simp
  with es pp show ?thesis by auto
qed

lemma primary_is_raw_entry:
  assumes wf: "wellFormed s" and r: "PrefixType (Primary s) = RAW"
  shows "\<exists>es. RawEntries s = Inr es \<and> Primary s \<in> set es"
proof -
  from wf have Pin: "Primary s \<in> entriesOf s" by (simp add: wellFormed_def)
  from wf r have "\<not> (\<exists>p es. length p = NonRawPrefixSize \<and> EntriesForPrefix s p = Inr es \<and>
      Primary s \<in> set es)"
    by (auto simp add: wellFormed_def)
  with Pin show ?thesis by (auto simp add: entriesOf_def)
qed

lemma toyMAC_correct: "macCorrect (toyMAC key)"
  by (auto simp add: macCorrect_def toyMAC_def)

lemma wellFormed_shortTagSet: "wellFormed (ps shortTagSet)"
  by (auto simp add: wellFormed_def entriesOf_def shortTagSet_def rawEntry3_def)

lemma wellFormed_tinkSet: "wellFormed (ps tinkSet)"
  by (auto simp add: wellFormed_def entriesOf_def tinkSet_def tinkEntry_def rawEntry2_def
      bigEndianUint32_example NonRawPrefixSize_def split: if_splits)

lemma wellFormed_collidingSet: "wellFormed (ps collidingSet)"
  by (auto simp add: wellFormed_def entriesOf_def collidingSet_def legacyEntry1_def rawEntry2_def
      bigEndianUint32_one NonRawPrefixSize_def split: if_splits)

lemma ComputeMAC_success:
  assumes "fst (wrappedMAC_ComputeMAC ub m data) = Inr mac"
  shows "\<not> (PrefixType (Primary (ps m)) = LEGACY \<and> maxInt ub \<le> length data) \<and>
         (\<exists>t. ComputeMAC (Primitive (Primary (ps m)))
                 (if PrefixType (Primary (ps m)) = LEGACY then data @ [0] else data) = Inr t \<and>
              mac = Prefix (Primary (ps m)) @ t)"
  using assms
  by (auto simp add: wrappedMAC_ComputeMAC_def Let_def initial_def record_call_def log_event_def
      split: if_splits sum.splits)

subsection \<open>Claims about the wrapped MAC\<close>

text \<open>Claim C1 says that within one call of \<^verbatim>\<open>VerifyMAC(mac, data)\<close> every attempt on a
  raw entry passes the full \<open>mac\<close> and the unmodified \<open>data\<close>, and that every \<open>LEGACY\<close>
  attempt passes \<open>data\<close> followed by one zero byte, computed from the original input.
  The source assigns the suffixed copy to the variable \<^verbatim>\<open>data\<close> itself, so the copy
  outlives the attempt it was made for. The run below is on a well-formed keyset (a \<open>LEGACY\<close>
  key 1 and a \<open>RAW\<close> primary key 2) with the MAC the wrapper itself computed for the data
  \<open>[7]\<close>: the tag starts with key 1's prefix, the attempt on key 1 fails, and the attempt
  on the raw key 2 is made with \<open>[7, 0]\<close> instead of \<open>[7]\<close>, so the valid MAC is
  rejected.\<close>

theorem VerifyMAC_raw_attempt_sees_suffixed_data:
  "wrappedMAC_ComputeMAC 64 collidingSet [7] =
     (Inr [0, 0, 0, 0, 1, 9, 7],
      \<lparr>cur_data = [7], logged = [Log 2 1], invoked = [CallComputeMAC 2 [7]]\<rparr>) \<and>
   wrappedMAC_VerifyMAC 64 collidingSet [0, 0, 0, 0, 1, 9, 7] [7] =
     (Some errInvalidMAC,
      \<lparr>cur_data = [7, 0], logged = [LogFailure],
        invoked = [CallVerifyMAC NonRawKeys 1 LEGACY [9, 7] [7, 0],
                   CallVerifyMAC RawKeys 2 RAW [0, 0, 0, 0, 1, 9, 7] [7, 0]]\<rparr>)"
  by (simp add: wrappedMAC_ComputeMAC_def wrappedMAC_VerifyMAC_def collidingSet_def
      rawEntry2_def legacyEntry1_def toyMAC_def initial_def log_event_def record_call_def
      NonRawPrefixSize_def maxInt_64 errInvalidMAC_def Let_def)

text \<open>The same reassignment on a bucket with two \<open>LEGACY\<close> entries: the second attempt
  receives the data with two zero bytes appended, and the MAC computed under the second
  entry is rejected.\<close>

lemma VerifyMAC_second_legacy_attempt_sees_two_suffixes:
  "wrappedMAC_ComputeMAC 64 twoLegacySet [7] =
     (Inr [0, 0, 0, 0, 1, 6, 7, 0],
      \<lparr>cur_data = [7, 0], logged = [Log 1 2], invoked = [CallComputeMAC 1 [7, 0]]\<rparr>) \<and>
   wrappedMAC_VerifyMAC 64 twoLegacySet [0, 0, 0, 0, 1, 6, 7, 0] [7] =
     (Some errInvalidMAC,
      \<lparr>cur_data = [7, 0, 0], logged = [LogFailure],
        invoked = [CallVerifyMAC NonRawKeys 1 LEGACY [6, 7, 0] [7, 0],
                   CallVerifyMAC NonRawKeys 1 LEGACY [6, 7, 0] [7, 0, 0]]\<rparr>)"
  by (simp add: wrappedMAC_ComputeMAC_def wrappedMAC_VerifyMAC_def twoLegacySet_def
      legacyEntry1_def legacyEntry1b_def toyMAC_def initial_def log_event_def record_call_def
      NonRawPrefixSize_def maxInt_64 errInvalidMAC_def Let_def)

text \<open>Claim C2 says that for every well-formed primitive set whose underlying primitives
  are correct, \<^verbatim>\<open>VerifyMAC(ComputeMAC(data), data)\<close> succeeds for every primary, of
  any prefix type. It fails, by the guard at the start of \<^verbatim>\<open>VerifyMAC\<close>, when the
  MAC is at most 5 bytes long: a \<open>RAW\<close> primary with a 3-byte tag.\<close>

theorem roundtrip_short_tag_counterexample:
  "wellFormed (ps shortTagSet) \<and> macCorrect (Primitive (Primary (ps shortTagSet))) \<and>
   fst (wrappedMAC_ComputeMAC 64 shortTagSet []) = Inr [1, 2, 3] \<and>
   fst (wrappedMAC_VerifyMAC 64 shortTagSet [1, 2, 3] []) = Some errInvalidMAC"
proof -
  have "macCorrect (Primitive (Primary (ps shortTagSet)))"
    by (simp add: shortTagSet_def rawEntry3_def toyMAC_correct)
  moreover have "fst (wrappedMAC_ComputeMAC 64 shortTagSet []) = Inr [1, 2, 3]"
    by (simp add: wrappedMAC_ComputeMAC_def shortTagSet_def rawEntry3_def toyMAC_def Let_def
        initial_def log_event_def record_call_def)
  moreover have "fst (wrappedMAC_VerifyMAC 64 shortTagSet [1, 2, 3] []) = Some errInvalidMAC"
    by (simp add: wrappedMAC_VerifyMAC_def NonRawPrefixSize_def Let_def)
  ultimately show ?thesis using wellFormed_shortTagSet by simp
qed

text \<open>Claim C2, amended: for a well-formed primitive set whose primary primitive is
  correct, if \<^verbatim>\<open>ComputeMAC(data)\<close> succeeds with a MAC longer than 5 bytes and, for a
  \<open>RAW\<close> primary, no \<open>LEGACY\<close> entry is indexed under the MAC's first five bytes, then
  \<^verbatim>\<open>VerifyMAC\<close> accepts that MAC for \<open>data\<close>. The primary may be of any prefix
  type.\<close>

theorem wrappedMAC_roundtrip:
  assumes wf: "wellFormed (ps m)"
    and contract: "macCorrect (Primitive (Primary (ps m)))"
    and comp: "fst (wrappedMAC_ComputeMAC ub m data) = Inr mac"
    and long: "NonRawPrefixSize < length mac"
    and noLegacy: "PrefixType (Primary (ps m)) = RAW \<longrightarrow>
       (\<forall>es. EntriesForPrefix (ps m) (take NonRawPrefixSize mac) = Inr es \<longrightarrow>
          (\<forall>e \<in> set es. PrefixType e \<noteq> LEGACY))"
  shows "fst (wrappedMAC_VerifyMAC ub m mac data) = None"
proof -
  let ?P = "Primary (ps m)"
  let ?d = "if PrefixType ?P = LEGACY then data @ [0] else data"
  from ComputeMAC_success [OF comp] obtain t
    where bound: "\<not> (PrefixType ?P = LEGACY \<and> maxInt ub \<le> length data)"
      and tag: "ComputeMAC (Primitive ?P) ?d = Inr t" and mac: "mac = Prefix ?P @ t"
    by blast
  from contract tag have ok: "VerifyMAC (Primitive ?P) t ?d = None"
    by (simp add: macCorrect_def)
  from wf have Pin: "?P \<in> entriesOf (ps m)" by (simp add: wellFormed_def)
  with wf have pform: "Prefix ?P = outputPrefix (PrefixType ?P) (KeyID ?P)"
    by (simp add: wellFormed_def)
  from long have nshort: "\<not> length mac \<le> NonRawPrefixSize" by simp
  show ?thesis
  proof (cases "PrefixType ?P = RAW")
    case False
    with pform have len: "length (Prefix ?P) = NonRawPrefixSize"
      by (simp add: length_outputPrefix)
    with mac have tk: "take NonRawPrefixSize mac = Prefix ?P"
      and dr: "drop NonRawPrefixSize mac = t"
      by simp_all
    from bucket_is_primary [OF wf False] obtain rest
      where b: "EntriesForPrefix (ps m) (Prefix ?P) = Inr (?P # rest)" by blast
    have "fst (tryNonRawKeys ub t (?P # rest) (initial data)) = Returned None"
      using bound ok
      by (intro tryNonRawKeys_first_accepts) (auto simp add: initial_def split: if_splits)
    then show ?thesis
      using nshort tk dr b
      by (simp add: wrappedMAC_VerifyMAC_def Let_def split_beta)
  next
    case True
    with pform mac have mt: "mac = t" by simp
    from True ok mt have okraw: "VerifyMAC (Primitive ?P) mac data = None" by simp
    from primary_is_raw_entry [OF wf True] obtain raw
      where raw: "RawEntries (ps m) = Inr raw" and Praw: "?P \<in> set raw" by blast
    from long have "length (take NonRawPrefixSize mac) = NonRawPrefixSize" by simp
    moreover from wf
    have "\<forall>p. length p = NonRawPrefixSize \<longrightarrow> (\<exists>es. EntriesForPrefix (ps m) p = Inr es)"
      by (simp add: wellFormed_def)
    ultimately obtain es
      where es: "EntriesForPrefix (ps m) (take NonRawPrefixSize mac) = Inr es"
      by blast
    with noLegacy True have nl: "\<forall>e \<in> set es. PrefixType e \<noteq> LEGACY" by blast
    let ?r = "tryNonRawKeys ub (drop NonRawPrefixSize mac) es (initial data)"
    from tryNonRawKeys_no_legacy [OF nl, of ub "drop NonRawPrefixSize mac" "initial data"]
    consider "fst ?r = Returned None" | "fst ?r = Continue" "cur_data (snd ?r) = data"
      by (auto simp add: initial_def)
    then show ?thesis
    proof cases
      case 1
      then show ?thesis using nshort es
        by (simp add: wrappedMAC_VerifyMAC_def Let_def split_beta)
    next
      case 2
      from okraw 2(2) have "VerifyMAC (Primitive ?P) mac (cur_data (snd ?r)) = None" by simp
      with Praw have "fst (tryRawKeys mac raw (snd ?r)) = Returned None"
        by (rule tryRawKeys_accepts)
      then show ?thesis using nshort es raw 2(1)
        by (simp add: wrappedMAC_VerifyMAC_def Let_def split_beta)
    qed
  qed
qed

theorem wrappedMAC_roundtrip_witness:
  "wellFormed (ps tinkSet) \<and> macCorrect (Primitive (Primary (ps tinkSet))) \<and>
   fst (wrappedMAC_ComputeMAC 64 tinkSet [7]) = Inr [1, 1, 2, 3, 4, 9, 7] \<and>
   NonRawPrefixSize < length [1, 1, 2, 3, 4, 9, 7 :: byte] \<and>
   fst (wrappedMAC_VerifyMAC 64 tinkSet [1, 1, 2, 3, 4, 9, 7] [7]) = None"
proof -
  have c: "macCorrect (Primitive (Primary (ps tinkSet)))"
    by (simp add: tinkSet_def tinkEntry_def toyMAC_correct)
  have comp: "fst (wrappedMAC_ComputeMAC 64 tinkSet [7]) = Inr [1, 1, 2, 3, 4, 9, 7]"
    by (simp add: wrappedMAC_ComputeMAC_def tinkSet_def tinkEntry_def toyMAC_def Let_def
        initial_def log_event_def record_call_def)
  have long: "NonRawPrefixSize < length [1, 1, 2, 3, 4, 9, 7 :: byte]"
    by (simp add: NonRawPrefixSize_def)
  have nl: "PrefixType (Primary (ps tinkSet)) = RAW \<longrightarrow>
       (\<forall>es. EntriesForPrefix (ps tinkSet) (take NonRawPrefixSize [1, 1, 2, 3, 4, 9, 7]) = Inr es \<longrightarrow>
          (\<forall>e \<in> set es. PrefixType e \<noteq> LEGACY))"
    by (simp add: tinkSet_def tinkEntry_def)
  from wrappedMAC_roundtrip [OF wellFormed_tinkSet c comp long nl] wellFormed_tinkSet c comp long
  show ?thesis by simp
qed

text \<open>Claim C3: \<^verbatim>\<open>ComputeMAC\<close> returns the primary's prefix followed by the tag of the
  primary primitive. Under a \<open>LEGACY\<close> primary it rejects data of length at least
  \<open>maxInt\<close> and otherwise computes the tag over the data followed by one zero byte; under
  any other prefix type the tag is over the data as given, whatever its length; with an
  empty prefix the result is the tag itself. An error of the primitive is returned as it
  is.\<close>

theorem ComputeMAC_result:
  "fst (wrappedMAC_ComputeMAC ub m data) =
     (if PrefixType (Primary (ps m)) = LEGACY
      then (if maxInt ub \<le> length data then Inl errDataTooLong
            else (case ComputeMAC (Primitive (Primary (ps m))) (data @ [0]) of
                    Inl err \<Rightarrow> Inl err
                  | Inr tag \<Rightarrow> Inr (Prefix (Primary (ps m)) @ tag)))
      else (case ComputeMAC (Primitive (Primary (ps m))) data of
              Inl err \<Rightarrow> Inl err
            | Inr tag \<Rightarrow> (if Prefix (Primary (ps m)) = [] then Inr tag
                         else Inr (Prefix (Primary (ps m)) @ tag))))"
  by (simp add: wrappedMAC_ComputeMAC_def Let_def initial_def record_call_def log_event_def
      split: sum.splits)

text \<open>Claim C4: for a \<open>mac\<close> of at most 5 bytes \<^verbatim>\<open>VerifyMAC\<close> returns the invalid-MAC
  error, logs exactly one failure and calls no underlying primitive.\<close>

theorem VerifyMAC_short_mac:
  assumes "length mac \<le> 5"
  shows "wrappedMAC_VerifyMAC ub m mac data =
     (Some errInvalidMAC, \<lparr>cur_data = data, logged = [LogFailure], invoked = []\<rparr>)"
  using assms
  by (simp add: wrappedMAC_VerifyMAC_def NonRawPrefixSize_def Let_def initial_def log_event_def)

theorem VerifyMAC_short_mac_witness:
  "length [0, 0, 0, 0, 1 :: byte] \<le> 5 \<and>
   wrappedMAC_VerifyMAC 64 collidingSet [0, 0, 0, 0, 1] [7] =
     (Some errInvalidMAC, \<lparr>cur_data = [7], logged = [LogFailure], invoked = []\<rparr>)"
  using VerifyMAC_short_mac [of "[0, 0, 0, 0, 1]" 64 collidingSet "[7]"] by simp


section \<open>Verification: the HMAC key manager\<close>

lemma Primitive_structure:
  "hmacKeyManager_Primitive deps serializedKey =
     (if serializedKey = [] then Inl errInvalidHMACKey
      else case Unmarshal_HmacKey deps serializedKey of
        Inl err \<Rightarrow> Inl errInvalidHMACKey
      | Inr key \<Rightarrow>
          if 0 < HmacKey.Version key
          then Inl (Error (''hmac_key_manager: invalid version: '' @ ''key has unsupported version''))
          else (case ValidateHMACParams deps (HashType_name deps (GetHash (HmacKey.Params key)))
                       (word_of_nat (length (KeyValue key))) (GetTagSize (HmacKey.Params key)) of
                  Some err \<Rightarrow> Inl err
                | None \<Rightarrow> NewHMAC deps (HashType_name deps (GetHash (HmacKey.Params key)))
                            (KeyValue key) (GetTagSize (HmacKey.Params key))))"
  by (simp add: hmacKeyManager_Primitive_def validateKey_def ValidateKeyVersion_def
      hmacKeyVersion_def Let_def split: sum.splits option.splits)

text \<open>Claim C5: \<^verbatim>\<open>hmacKeyManager.Primitive\<close> returns an error, and no primitive, when the
  serialized key is empty, when it does not parse, when the key's version is greater than 0
  and when \<^verbatim>\<open>ValidateHMACParams\<close> rejects the hash, the key size or the tag size;
  otherwise it calls the constructor \<^verbatim>\<open>NewHMAC\<close> on the hash name, the key value and the
  tag size and returns its result, which is a primitive whenever the constructor accepts what
  \<^verbatim>\<open>ValidateHMACParams\<close> accepts.\<close>

theorem hmacKeyManager_Primitive_outcome:
  "(serializedKey = [] \<longrightarrow> hmacKeyManager_Primitive deps serializedKey = Inl errInvalidHMACKey) \<and>
   (\<forall>err. Unmarshal_HmacKey deps serializedKey = Inl err \<longrightarrow>
      hmacKeyManager_Primitive deps serializedKey = Inl errInvalidHMACKey) \<and>
   (\<forall>key. serializedKey \<noteq> [] \<and> Unmarshal_HmacKey deps serializedKey = Inr key \<longrightarrow>
      (let hash = HashType_name deps (GetHash (HmacKey.Params key));
           tagSize = GetTagSize (HmacKey.Params key)
       in if 0 < HmacKey.Version key \<or>
             ValidateHMACParams deps hash (word_of_nat (length (KeyValue key))) tagSize \<noteq> None
          then (\<exists>err. hmacKeyManager_Primitive deps serializedKey = Inl err)
          else hmacKeyManager_Primitive deps serializedKey = NewHMAC deps hash (KeyValue key) tagSize \<and>
               (constructorAgrees deps \<longrightarrow>
                (\<exists>hmac. hmacKeyManager_Primitive deps serializedKey = Inr hmac))))"
  unfolding Primitive_structure
  by (auto simp add: Let_def constructorAgrees_def split: sum.splits option.splits)

lemma toyDeps_fields:
  "Unmarshal_HmacKey toyDeps = toyUnmarshalKey"
  "Unmarshal_HmacKeyFormat toyDeps = toyUnmarshalFormat"
  "Marshal_HmacKey toyDeps = (\<lambda>key. Inr (ucast (HmacKey.Version key) # KeyValue key))"
  "HashType_name toyDeps = toyHashName"
  "ValidateHMACParams toyDeps = toyValidateHMACParams"
  "NewHMAC toyDeps = toyNewHMAC"
  "GetRandomBytes toyDeps = (\<lambda>n. replicate (unat n) 42)"
  by (simp_all add: toyDeps_def)

lemma toy_constructorAgrees: "constructorAgrees toyDeps"
  by (simp add: constructorAgrees_def toyDeps_fields toyNewHMAC_def split: option.splits)

theorem hmacKeyManager_Primitive_outcome_witness:
  "hmacKeyManager_Primitive toyDeps [] = Inl errInvalidHMACKey \<and>
   hmacKeyManager_Primitive toyDeps [0, 3] = Inl errInvalidHMACKey \<and>
   (\<exists>err. hmacKeyManager_Primitive toyDeps (1 # 3 # 16 # key16) = Inl err) \<and>
   (\<exists>err. hmacKeyManager_Primitive toyDeps (0 # 3 # 9 # key16) = Inl err) \<and>
   constructorAgrees toyDeps \<and>
   hmacKeyManager_Primitive toyDeps (0 # 3 # 16 # key16) = Inr (''SHA256'', key16, 16)"
proof -
  have a: "hmacKeyManager_Primitive toyDeps [] = Inl errInvalidHMACKey"
    using hmacKeyManager_Primitive_outcome [of "[]" toyDeps] by simp
  have b: "hmacKeyManager_Primitive toyDeps [0, 3] = Inl errInvalidHMACKey"
    using hmacKeyManager_Primitive_outcome [of "[0, 3]" toyDeps] by (simp add: toyDeps_fields)
  have c: "\<exists>err. hmacKeyManager_Primitive toyDeps (1 # 3 # 16 # key16) = Inl err"
    using hmacKeyManager_Primitive_outcome [of "1 # 3 # 16 # key16" toyDeps]
    by (simp add: toyDeps_fields Let_def)
  have d: "\<exists>err. hmacKeyManager_Primitive toyDeps (0 # 3 # 9 # key16) = Inl err"
    using hmacKeyManager_Primitive_outcome [of "0 # 3 # 9 # key16" toyDeps]
    by (simp add: toyDeps_fields toyValidateHMACParams_def toyDigestSize_def key16_def
        GetHash_def GetTagSize_def Let_def)
  have e: "hmacKeyManager_Primitive toyDeps (0 # 3 # 16 # key16) = Inr (''SHA256'', key16, 16)"
    using hmacKeyManager_Primitive_outcome [of "0 # 3 # 16 # key16" toyDeps]
    by (simp add: toyDeps_fields toyValidateHMACParams_def toyDigestSize_def key16_def
        toyNewHMAC_def GetHash_def GetTagSize_def Let_def)
  from a b c d e toy_constructorAgrees show ?thesis by simp
qed

text \<open>Claim C6: for a valid serialized format (it is not empty, parses, passes
  \<^verbatim>\<open>ValidateHMACParams\<close> and has version 0) \<^verbatim>\<open>DeriveKey\<close> returns a key of version 0
  whose key value is the first \<open>keySize\<close> bytes of the pseudorandom source, and an error
  when the source yields fewer bytes; two sources that agree on their first \<open>keySize\<close> bytes
  give the same key.\<close>

theorem DeriveKey_valid_format:
  assumes "serializedKeyFormat \<noteq> []"
    and "Unmarshal_HmacKeyFormat deps serializedKeyFormat = Inr keyFormat"
    and "validateKeyFormat deps keyFormat = None"
    and "HmacKeyFormat.Version keyFormat = 0"
  shows "hmacKeyManager_DeriveKey deps serializedKeyFormat r =
           (if unat (HmacKeyFormat.KeySize keyFormat) \<le> length r
            then Inr \<lparr>HmacKey.Version = 0, HmacKey.Params = HmacKeyFormat.Params keyFormat,
                      KeyValue = take (unat (HmacKeyFormat.KeySize keyFormat)) r\<rparr>
            else Inl (Error ''hmac_key_manager: not enough pseudorandomness given'')) \<and>
         (take (unat (HmacKeyFormat.KeySize keyFormat)) r = take (unat (HmacKeyFormat.KeySize keyFormat)) r' \<and>
          unat (HmacKeyFormat.KeySize keyFormat) \<le> length r \<and> unat (HmacKeyFormat.KeySize keyFormat) \<le> length r' \<longrightarrow>
          hmacKeyManager_DeriveKey deps serializedKeyFormat r =
          hmacKeyManager_DeriveKey deps serializedKeyFormat r')"
  using assms
  by (simp add: hmacKeyManager_DeriveKey_def ValidateKeyVersion_def hmacKeyVersion_def
      ReadFull_def)

lemma toy_format_valid:
  "toyUnmarshalFormat [3, 16, 16, v] =
     Inr \<lparr>HmacKeyFormat.Params = Some \<lparr>Hash = SHA256, TagSize = 16\<rparr>,
          HmacKeyFormat.KeySize = 16, HmacKeyFormat.Version = ucast v\<rparr>"
  "validateKeyFormat toyDeps
     \<lparr>HmacKeyFormat.Params = Some \<lparr>Hash = SHA256, TagSize = 16\<rparr>,
      HmacKeyFormat.KeySize = 16, HmacKeyFormat.Version = w\<rparr> = None"
  by (simp_all add: validateKeyFormat_def toyDeps_fields toyValidateHMACParams_def
      toyDigestSize_def GetHash_def GetTagSize_def)

theorem DeriveKey_valid_format_witness:
  "hmacKeyManager_DeriveKey toyDeps [3, 16, 16, 0] stream20 =
     Inr \<lparr>HmacKey.Version = 0, HmacKey.Params = Some \<lparr>Hash = SHA256, TagSize = 16\<rparr>,
          KeyValue = [101, 102, 103, 104, 105, 106, 107, 108, 109, 110,
                      111, 112, 113, 114, 115, 116]\<rparr> \<and>
   hmacKeyManager_DeriveKey toyDeps [3, 16, 16, 0] [] =
     Inl (Error ''hmac_key_manager: not enough pseudorandomness given'')"
proof -
  let ?f = "\<lparr>HmacKeyFormat.Params = Some \<lparr>Hash = SHA256, TagSize = 16\<rparr>,
          HmacKeyFormat.KeySize = 16, HmacKeyFormat.Version = 0\<rparr>"
  have ne: "[3, 16, 16, 0 :: byte] \<noteq> []" by simp
  have u: "Unmarshal_HmacKeyFormat toyDeps [3, 16, 16, 0] = Inr ?f"
    by (simp add: toyDeps_fields)
  have v: "validateKeyFormat toyDeps ?f = None" by (rule toy_format_valid(2))
  have z: "HmacKeyFormat.Version ?f = 0" by simp
  from DeriveKey_valid_format [OF ne u v z, of stream20]
       DeriveKey_valid_format [OF ne u v z, of "[]"]
  show ?thesis by (simp add: stream20_def)
qed

text \<open>Claim C9: \<^verbatim>\<open>NewKey\<close>, and with it \<^verbatim>\<open>NewKeyData\<close>, does not look at the
  format's version: a format with version greater than 0 and otherwise valid parameters
  yields a key (and key data, when marshalling succeeds), while \<^verbatim>\<open>DeriveKey\<close> rejects
  the same format for its version.\<close>

theorem NewKey_ignores_format_version:
  assumes "serializedKeyFormat \<noteq> []"
    and "Unmarshal_HmacKeyFormat deps serializedKeyFormat = Inr keyFormat"
    and "validateKeyFormat deps keyFormat = None"
    and "0 < HmacKeyFormat.Version keyFormat"
  shows "hmacKeyManager_NewKey deps serializedKeyFormat =
           Inr \<lparr>HmacKey.Version = 0, HmacKey.Params = HmacKeyFormat.Params keyFormat,
                KeyValue = GetRandomBytes deps (HmacKeyFormat.KeySize keyFormat)\<rparr> \<and>
         hmacKeyManager_NewKeyData deps serializedKeyFormat =
           (case Marshal_HmacKey deps
                   \<lparr>HmacKey.Version = 0, HmacKey.Params = HmacKeyFormat.Params keyFormat,
                    KeyValue = GetRandomBytes deps (HmacKeyFormat.KeySize keyFormat)\<rparr> of
              Inl err \<Rightarrow> Inl errInvalidHMACKeyFormat
            | Inr serializedKey \<Rightarrow>
                Inr \<lparr>KeyData.TypeUrl = hmacTypeURL, KeyData.Value = serializedKey, KeyMaterialType = SYMMETRIC\<rparr>) \<and>
         hmacKeyManager_DeriveKey deps serializedKeyFormat r =
           Inl (Error (''hmac_key_manager: invalid key version: '' @
                       ''key has unsupported version''))"
  using assms
  by (simp add: hmacKeyManager_NewKey_def hmacKeyManager_NewKeyData_def
      hmacKeyManager_DeriveKey_def ValidateKeyVersion_def hmacKeyVersion_def
      hmacKeyManager_KeyMaterialType_def Let_def split: sum.splits)

theorem NewKey_ignores_format_version_witness:
  "hmacKeyManager_NewKey toyDeps [3, 16, 16, 1] =
     Inr \<lparr>HmacKey.Version = 0, HmacKey.Params = Some \<lparr>Hash = SHA256, TagSize = 16\<rparr>,
          KeyValue = replicate 16 42\<rparr> \<and>
   hmacKeyManager_NewKeyData toyDeps [3, 16, 16, 1] =
     Inr \<lparr>KeyData.TypeUrl = hmacTypeURL, KeyData.Value = 0 # replicate 16 42, KeyMaterialType = SYMMETRIC\<rparr> \<and>
   hmacKeyManager_DeriveKey toyDeps [3, 16, 16, 1] stream20 =
     Inl (Error ''hmac_key_manager: invalid key version: key has unsupported version'')"
proof -
  let ?f = "\<lparr>HmacKeyFormat.Params = Some \<lparr>Hash = SHA256, TagSize = 16\<rparr>,
          HmacKeyFormat.KeySize = 16, HmacKeyFormat.Version = 1\<rparr>"
  have ne: "[3, 16, 16, 1 :: byte] \<noteq> []" by simp
  have u: "Unmarshal_HmacKeyFormat toyDeps [3, 16, 16, 1] = Inr ?f"
    by (simp add: toyDeps_fields)
  have v: "validateKeyFormat toyDeps ?f = None" by (rule toy_format_valid(2))
  have z: "0 < HmacKeyFormat.Version ?f" by simp
  from NewKey_ignores_format_version [OF ne u v z, of stream20]
  show ?thesis by (simp add: toyDeps_fields)
qed


section \<open>Verification: XChaCha20-Poly1305\<close>

lemma toyCipher_contract: "sealOpenContract (toyCipher key)"
  by (simp add: sealOpenContract_def toyCipher_def toyTag_def)

lemma toyCipher_Overhead: "Overhead (toyCipher key) = 16"
  by (simp add: toyCipher_def)

lemma toyChacha_contract: "chachaContract toyChacha"
  by (simp add: chachaContract_def toyChacha_def toyCipher_contract toyCipher_Overhead
      chacha20poly1305_KeySize_def)

text \<open>Claim C7: for every 32-byte key, every plaintext within the length bound and
  every associated data, \<^verbatim>\<open>Encrypt\<close> succeeds and \<^verbatim>\<open>Decrypt\<close> of its result, under
  the same associated data, returns the plaintext, given the contract of the library
  cipher and of the random source.\<close>

theorem XChaCha20Poly1305_roundtrip:
  assumes contract: "chachaContract deps"
    and key: "length (Key x) = 32"
    and bound: "int (length plaintext) \<le>
                  subtle_maxInt deps - int chacha20poly1305_NonceSizeX - int (poly1305TagSize deps)"
  shows "\<exists>ct. fst (XChaCha20Poly1305_Encrypt deps x plaintext associatedData) = Inr ct \<and>
              fst (XChaCha20Poly1305_Decrypt deps x ct associatedData) = Inr plaintext"
proof -
  let ?nonce = "random_GetRandomBytes deps chacha20poly1305_NonceSizeX"
  from contract key obtain c
    where newx: "chacha20poly1305_NewX deps (Key x) = Inr c" and so: "sealOpenContract c"
      and ov: "Overhead c = poly1305TagSize deps"
    by (auto simp add: chachaContract_def chacha20poly1305_KeySize_def)
  from contract have ln: "length ?nonce = chacha20poly1305_NonceSizeX"
    by (simp add: chachaContract_def)
  with so obtain ct
    where seal: "Seal c ?nonce ?nonce plaintext associatedData = ?nonce @ ct"
      and lct: "length ct = length plaintext + Overhead c"
      and opn: "Open c [] ?nonce ct associatedData = Inr plaintext"
    unfolding sealOpenContract_def by blast
  have enc: "fst (XChaCha20Poly1305_Encrypt deps x plaintext associatedData) = Inr (?nonce @ ct)"
    using bound newx seal
    by (simp add: XChaCha20Poly1305_Encrypt_def Let_def)
  have "\<not> length (?nonce @ ct) < chacha20poly1305_NonceSizeX + poly1305TagSize deps"
    using ln lct ov by simp
  then have dec: "fst (XChaCha20Poly1305_Decrypt deps x (?nonce @ ct) associatedData) = Inr plaintext"
    using newx ln opn
    by (simp add: XChaCha20Poly1305_Decrypt_def Let_def)
  from enc dec show ?thesis by blast
qed

theorem XChaCha20Poly1305_roundtrip_witness:
  "chachaContract toyChacha \<and>
   (\<exists>ct. fst (XChaCha20Poly1305_Encrypt toyChacha \<lparr>Key = replicate 32 1\<rparr> [1, 2, 3] [9]) = Inr ct \<and>
         fst (XChaCha20Poly1305_Decrypt toyChacha \<lparr>Key = replicate 32 1\<rparr> ct [9]) = Inr [1, 2, 3])"
proof -
  have k: "length (Key \<lparr>Key = replicate 32 (1 :: byte)\<rparr>) = 32" by simp
  have b: "int (length [1, 2, 3 :: byte]) \<le>
             subtle_maxInt toyChacha - int chacha20poly1305_NonceSizeX -
             int (poly1305TagSize toyChacha)"
    by (simp add: toyChacha_def chacha20poly1305_NonceSizeX_def)
  from XChaCha20Poly1305_roundtrip [OF toyChacha_contract k b, of "[9]"] toyChacha_contract
  show ?thesis by simp
qed

text \<open>Claim C10: for a ciphertext shorter than 40 bytes (the 24-byte nonce and the 16-byte
  tag that \<^verbatim>\<open>poly1305TagSize\<close> names) \<^verbatim>\<open>Decrypt\<close> returns the ``ciphertext too short'' error and makes no call on the
  library: the cipher is neither constructed nor invoked.\<close>

theorem Decrypt_short_ciphertext:
  assumes "poly1305TagSize deps = 16" and "length ciphertext < 40"
  shows "XChaCha20Poly1305_Decrypt deps x ciphertext associatedData =
           (Inl (Error ''xchacha20poly1305: ciphertext too short''), [])"
  using assms
  by (simp add: XChaCha20Poly1305_Decrypt_def chacha20poly1305_NonceSizeX_def)

theorem Decrypt_short_ciphertext_witness:
  "poly1305TagSize toyChacha = 16 \<and> length (replicate 39 (0 :: byte)) < 40 \<and>
   XChaCha20Poly1305_Decrypt toyChacha \<lparr>Key = replicate 32 1\<rparr> (replicate 39 0) [9] =
     (Inl (Error ''xchacha20poly1305: ciphertext too short''), [])"
proof -
  have t: "poly1305TagSize toyChacha = 16" by (simp add: toyChacha_def)
  have l: "length (replicate 39 (0 :: byte)) < 40" by simp
  from Decrypt_short_ciphertext [OF t l, of "\<lparr>Key = replicate 32 1\<rparr>" "[9]"] t l
  show ?thesis by simp
qed

section \<open>Verification: key templates\<close>

lemma createHPKEKeyTemplate_outcome:
  "templateOutcome marshal
     (HpkeKeyFormatMsg \<lparr>HpkeKeyFormat.Params = \<lparr>Kem = kem, Kdf = kdf, Aead = aead\<rparr>\<rparr>)
     hpkePrivateKeyTypeURL p (createHPKEKeyTemplate marshal kem kdf aead p)"
  by (simp add: templateOutcome_def createHPKEKeyTemplate_def Let_def split: sum.splits)

lemma createECIESAEADHKDFKeyTemplate_outcome:
  "templateOutcome marshal
     (EciesAeadHkdfKeyFormatMsg \<lparr>EciesAeadHkdfKeyFormat.Params =
        \<lparr>KemParams = \<lparr>CurveType = c, HkdfHashType = ht, HkdfSalt = salt\<rparr>,
         DemParams = \<lparr>AeadDem = dekT\<rparr>, EcPointFormat = ptfmt\<rparr>\<rparr>)
     ''type.googleapis.com/google.crypto.tink.EciesAeadHkdfPrivateKey'' TINK
     (createECIESAEADHKDFKeyTemplate marshal c ht ptfmt dekT salt)"
  by (simp add: templateOutcome_def createECIESAEADHKDFKeyTemplate_def Let_def split: sum.splits)

lemma createECDSAKeyTemplate_outcome:
  "templateOutcome marshal
     (EcdsaKeyFormatMsg \<lparr>EcdsaKeyFormat.Params =
        \<lparr>EcdsaParams.HashType = hashType, Curve = curve, Encoding = encoding\<rparr>\<rparr>)
     ecdsaSignerTypeURL p (createECDSAKeyTemplate marshal hashType curve encoding p)"
  by (simp add: templateOutcome_def createECDSAKeyTemplate_def Let_def split: sum.splits)

lemma create_RSA_SSA_PKCS1_Template_outcome:
  "templateOutcome marshal
     (RsaSsaPkcs1KeyFormatMsg \<lparr>RsaSsaPkcs1KeyFormat.Params = \<lparr>RsaSsaPkcs1Params.HashType = hashType\<rparr>,
        RsaSsaPkcs1KeyFormat.ModulusSizeInBits = bits,
        RsaSsaPkcs1KeyFormat.PublicExponent = [1, 0, 1]\<rparr>)
     rsaSSAPKCS1SignerTypeURL p (create_RSA_SSA_PKCS1_Template marshal p hashType bits)"
  by (simp add: templateOutcome_def create_RSA_SSA_PKCS1_Template_def Let_def split: sum.splits)

lemma create_RSA_SSA_PSS_Template_outcome:
  "templateOutcome marshal
     (RsaSsaPssKeyFormatMsg \<lparr>RsaSsaPssKeyFormat.Params =
          \<lparr>SigHash = hashType, Mgf1Hash = hashType, SaltLength = saltLength\<rparr>,
        RsaSsaPssKeyFormat.ModulusSizeInBits = bits,
        RsaSsaPssKeyFormat.PublicExponent = [1, 0, 1]\<rparr>)
     rsaSSAPSSSignerTypeURL p (create_RSA_SSA_PSS_Template marshal p hashType saltLength bits)"
  by (simp add: templateOutcome_def create_RSA_SSA_PSS_Template_def Let_def split: sum.splits)

lemma AESSIVKeyTemplate_outcome:
  "templateOutcome marshal (AesSivKeyFormatMsg \<lparr>AesSivKeyFormat.KeySize = 64\<rparr>)
     ''type.googleapis.com/google.crypto.tink.AesSivKey'' TINK (AESSIVKeyTemplate marshal)"
  by (simp add: templateOutcome_def AESSIVKeyTemplate_def Let_def split: sum.splits)

lemma ecies_named_factories:
  "templateOutcome marshal
     (EciesAeadHkdfKeyFormatMsg \<lparr>EciesAeadHkdfKeyFormat.Params =
        \<lparr>KemParams = \<lparr>CurveType = NIST_P256, HkdfHashType = SHA256, HkdfSalt = []\<rparr>,
         DemParams = \<lparr>AeadDem = dekT\<rparr>, EcPointFormat = UNCOMPRESSED\<rparr>\<rparr>)
     ''type.googleapis.com/google.crypto.tink.EciesAeadHkdfPrivateKey'' TINK
     (ECIESHKDFAES128GCMKeyTemplate marshal dekT)"
  "templateOutcome marshal
     (EciesAeadHkdfKeyFormatMsg \<lparr>EciesAeadHkdfKeyFormat.Params =
        \<lparr>KemParams = \<lparr>CurveType = NIST_P256, HkdfHashType = SHA256, HkdfSalt = []\<rparr>,
         DemParams = \<lparr>AeadDem = dekT\<rparr>, EcPointFormat = UNCOMPRESSED\<rparr>\<rparr>)
     ''type.googleapis.com/google.crypto.tink.EciesAeadHkdfPrivateKey'' TINK
     (ECIESHKDFAES128CTRHMACSHA256KeyTemplate marshal dekT)"
  by (simp_all add: createECIESAEADHKDFKeyTemplate_outcome
      ECIESHKDFAES128GCMKeyTemplate_def ECIESHKDFAES128CTRHMACSHA256KeyTemplate_def)

lemma hpke_named_factories:
  "templateOutcome marshal
     (HpkeKeyFormatMsg \<lparr>HpkeKeyFormat.Params = \<lparr>Kem = DHKEM_P256_HKDF_SHA256, Kdf = HKDF_SHA256, Aead = AES_128_GCM\<rparr>\<rparr>)
     hpkePrivateKeyTypeURL TINK (DHKEM_P256_HKDF_SHA256_HKDF_SHA256_AES_128_GCM_Key_Template marshal)"
  "templateOutcome marshal
     (HpkeKeyFormatMsg \<lparr>HpkeKeyFormat.Params = \<lparr>Kem = DHKEM_P256_HKDF_SHA256, Kdf = HKDF_SHA256, Aead = AES_128_GCM\<rparr>\<rparr>)
     hpkePrivateKeyTypeURL RAW (DHKEM_P256_HKDF_SHA256_HKDF_SHA256_AES_128_GCM_Raw_Key_Template marshal)"
  "templateOutcome marshal
     (HpkeKeyFormatMsg \<lparr>HpkeKeyFormat.Params = \<lparr>Kem = DHKEM_P256_HKDF_SHA256, Kdf = HKDF_SHA256, Aead = AES_256_GCM\<rparr>\<rparr>)
     hpkePrivateKeyTypeURL TINK (DHKEM_P256_HKDF_SHA256_HKDF_SHA256_AES_256_GCM_Key_Template marshal)"
  "templateOutcome marshal
     (HpkeKeyFormatMsg \<lparr>HpkeKeyFormat.Params = \<lparr>Kem = DHKEM_P256_HKDF_SHA256, Kdf = HKDF_SHA256, Aead = AES_256_GCM\<rparr>\<rparr>)
     hpkePrivateKeyTypeURL RAW (DHKEM_P256_HKDF_SHA256_HKDF_SHA256_AES_256_GCM_Raw_Key_Template marshal)"
  "templateOutcome marshal
     (HpkeKeyFormatMsg \<lparr>HpkeKeyFormat.Params = \<lparr>Kem = DHKEM_X25519_HKDF_SHA256, Kdf = HKDF_SHA256, Aead = AES_128_GCM\<rparr>\<rparr>)
     hpkePrivateKeyTypeURL TINK (DHKEM_X25519_HKDF_SHA256_HKDF_SHA256_AES_128_GCM_Key_Template marshal)"
  "templateOutcome marshal
     (HpkeKeyFormatMsg \<lparr>HpkeKeyFormat.Params = \<lparr>Kem = DHKEM_X25519_HKDF_SHA256, Kdf = HKDF_SHA256, Aead = AES_128_GCM\<rparr>\<rparr>)
     hpkePrivateKeyTypeURL RAW (DHKEM_X25519_HKDF_SHA256_HKDF_SHA256_AES_128_GCM_Raw_Key_Template marshal)"
  "templateOutcome marshal
     (HpkeKeyFormatMsg \<lparr>HpkeKeyFormat.Params = \<lparr>Kem = DHKEM_X25519_HKDF_SHA256, Kdf = HKDF_SHA256, Aead = AES_256_GCM\<rparr>\<rparr>)
     hpkePrivateKeyTypeURL TINK (DHKEM_X25519_HKDF_SHA256_HKDF_SHA256_AES_256_GCM_Key_Template marshal)"
  "templateOutcome marshal
     (HpkeKeyFormatMsg \<lparr>HpkeKeyFormat.Params = \<lparr>Kem = DHKEM_X25519_HKDF_SHA256, Kdf = HKDF_SHA256, Aead = AES_256_GCM\<rparr>\<rparr>)
     hpkePrivateKeyTypeURL RAW (DHKEM_X25519_HKDF_SHA256_HKDF_SHA256_AES_256_GCM_Raw_Key_Template marshal)"
  "templateOutcome marshal
     (HpkeKeyFormatMsg \<lparr>HpkeKeyFormat.Params = \<lparr>Kem = DHKEM_X25519_HKDF_SHA256, Kdf = HKDF_SHA256, Aead = CHACHA20_POLY1305\<rparr>\<rparr>)
     hpkePrivateKeyTypeURL TINK (DHKEM_X25519_HKDF_SHA256_HKDF_SHA256_CHACHA20_POLY1305_Key_Template marshal)"
  "templateOutcome marshal
     (HpkeKeyFormatMsg \<lparr>HpkeKeyFormat.Params = \<lparr>Kem = DHKEM_X25519_HKDF_SHA256, Kdf = HKDF_SHA256, Aead = CHACHA20_POLY1305\<rparr>\<rparr>)
     hpkePrivateKeyTypeURL RAW (DHKEM_X25519_HKDF_SHA256_HKDF_SHA256_CHACHA20_POLY1305_Raw_Key_Template marshal)"
  by (simp_all add: createHPKEKeyTemplate_outcome
      DHKEM_P256_HKDF_SHA256_HKDF_SHA256_AES_128_GCM_Key_Template_def
      DHKEM_P256_HKDF_SHA256_HKDF_SHA256_AES_128_GCM_Raw_Key_Template_def
      DHKEM_P256_HKDF_SHA256_HKDF_SHA256_AES_256_GCM_Key_Template_def
      DHKEM_P256_HKDF_SHA256_HKDF_SHA256_AES_256_GCM_Raw_Key_Template_def
      DHKEM_X25519_HKDF_SHA256_HKDF_SHA256_AES_128_GCM_Key_Template_def
      DHKEM_X25519_HKDF_SHA256_HKDF_SHA256_AES_128_GCM_Raw_Key_Template_def
      DHKEM_X25519_HKDF_SHA256_HKDF_SHA256_AES_256_GCM_Key_Template_def
      DHKEM_X25519_HKDF_SHA256_HKDF_SHA256_AES_256_GCM_Raw_Key_Template_def
      DHKEM_X25519_HKDF_SHA256_HKDF_SHA256_CHACHA20_POLY1305_Key_Template_def
      DHKEM_X25519_HKDF_SHA256_HKDF_SHA256_CHACHA20_POLY1305_Raw_Key_Template_def)

lemma ecdsa_named_factories:
  "templateOutcome marshal
     (EcdsaKeyFormatMsg \<lparr>EcdsaKeyFormat.Params =
        \<lparr>EcdsaParams.HashType = SHA256, Curve = NIST_P256, Encoding = DER\<rparr>\<rparr>)
     ecdsaSignerTypeURL TINK (ECDSAP256KeyTemplate marshal)"
  "templateOutcome marshal
     (EcdsaKeyFormatMsg \<lparr>EcdsaKeyFormat.Params =
        \<lparr>EcdsaParams.HashType = SHA256, Curve = NIST_P256, Encoding = DER\<rparr>\<rparr>)
     ecdsaSignerTypeURL RAW (ECDSAP256KeyWithoutPrefixTemplate marshal)"
  "templateOutcome marshal
     (EcdsaKeyFormatMsg \<lparr>EcdsaKeyFormat.Params =
        \<lparr>EcdsaParams.HashType = SHA256, Curve = NIST_P256, Encoding = IEEE_P1363\<rparr>\<rparr>)
     ecdsaSignerTypeURL RAW (ECDSAP256RawKeyTemplate marshal)"
  "templateOutcome marshal
     (EcdsaKeyFormatMsg \<lparr>EcdsaKeyFormat.Params =
        \<lparr>EcdsaParams.HashType = SHA384, Curve = NIST_P384, Encoding = DER\<rparr>\<rparr>)
     ecdsaSignerTypeURL TINK (ECDSAP384SHA384KeyTemplate marshal)"
  "templateOutcome marshal
     (EcdsaKeyFormatMsg \<lparr>EcdsaKeyFormat.Params =
        \<lparr>EcdsaParams.HashType = SHA384, Curve = NIST_P384, Encoding = DER\<rparr>\<rparr>)
     ecdsaSignerTypeURL RAW (ECDSAP384SHA384KeyWithoutPrefixTemplate marshal)"
  "templateOutcome marshal
     (EcdsaKeyFormatMsg \<lparr>EcdsaKeyFormat.Params =
        \<lparr>EcdsaParams.HashType = SHA512, Curve = NIST_P384, Encoding = DER\<rparr>\<rparr>)
     ecdsaSignerTypeURL TINK (ECDSAP384SHA512KeyTemplate marshal)"
  "templateOutcome marshal
     (EcdsaKeyFormatMsg \<lparr>EcdsaKeyFormat.Params =
        \<lparr>EcdsaParams.HashType = SHA512, Curve = NIST_P384, Encoding = DER\<rparr>\<rparr>)
     ecdsaSignerTypeURL RAW (ECDSAP384KeyWithoutPrefixTemplate marshal)"
  "templateOutcome marshal
     (EcdsaKeyFormatMsg \<lparr>EcdsaKeyFormat.Params =
        \<lparr>EcdsaParams.HashType = SHA512, Curve = NIST_P521, Encoding = DER\<rparr>\<rparr>)
     ecdsaSignerTypeURL TINK (ECDSAP521KeyTemplate marshal)"
  "templateOutcome marshal
     (EcdsaKeyFormatMsg \<lparr>EcdsaKeyFormat.Params =
        \<lparr>EcdsaParams.HashType = SHA512, Curve = NIST_P521, Encoding = DER\<rparr>\<rparr>)
     ecdsaSignerTypeURL RAW (ECDSAP521KeyWithoutPrefixTemplate marshal)"
  by (simp_all add: createECDSAKeyTemplate_outcome
      ECDSAP256KeyTemplate_def
      ECDSAP256KeyWithoutPrefixTemplate_def
      ECDSAP256RawKeyTemplate_def
      ECDSAP384SHA384KeyTemplate_def
      ECDSAP384SHA384KeyWithoutPrefixTemplate_def
      ECDSAP384SHA512KeyTemplate_def
      ECDSAP384KeyWithoutPrefixTemplate_def
      ECDSAP521KeyTemplate_def
      ECDSAP521KeyWithoutPrefixTemplate_def)

lemma rsa_ssa_pkcs1_named_factories:
  "templateOutcome marshal
     (RsaSsaPkcs1KeyFormatMsg \<lparr>RsaSsaPkcs1KeyFormat.Params = \<lparr>RsaSsaPkcs1Params.HashType = SHA256\<rparr>,
        RsaSsaPkcs1KeyFormat.ModulusSizeInBits = 3072,
        RsaSsaPkcs1KeyFormat.PublicExponent = [1, 0, 1]\<rparr>)
     rsaSSAPKCS1SignerTypeURL TINK (RSA_SSA_PKCS1_3072_SHA256_F4_Key_Template marshal)"
  "templateOutcome marshal
     (RsaSsaPkcs1KeyFormatMsg \<lparr>RsaSsaPkcs1KeyFormat.Params = \<lparr>RsaSsaPkcs1Params.HashType = SHA256\<rparr>,
        RsaSsaPkcs1KeyFormat.ModulusSizeInBits = 3072,
        RsaSsaPkcs1KeyFormat.PublicExponent = [1, 0, 1]\<rparr>)
     rsaSSAPKCS1SignerTypeURL RAW (RSA_SSA_PKCS1_3072_SHA256_F4_RAW_Key_Template marshal)"
  "templateOutcome marshal
     (RsaSsaPkcs1KeyFormatMsg \<lparr>RsaSsaPkcs1KeyFormat.Params = \<lparr>RsaSsaPkcs1Params.HashType = SHA512\<rparr>,
        RsaSsaPkcs1KeyFormat.ModulusSizeInBits = 4096,
        RsaSsaPkcs1KeyFormat.PublicExponent = [1, 0, 1]\<rparr>)
     rsaSSAPKCS1SignerTypeURL TINK (RSA_SSA_PKCS1_4096_SHA512_F4_Key_Template marshal)"
  "templateOutcome marshal
     (RsaSsaPkcs1KeyFormatMsg \<lparr>RsaSsaPkcs1KeyFormat.Params = \<lparr>RsaSsaPkcs1Params.HashType = SHA512\<rparr>,
        RsaSsaPkcs1KeyFormat.ModulusSizeInBits = 4096,
        RsaSsaPkcs1KeyFormat.PublicExponent = [1, 0, 1]\<rparr>)
     rsaSSAPKCS1SignerTypeURL RAW (RSA_SSA_PKCS1_4096_SHA512_F4_RAW_Key_Template marshal)"
  by (simp_all add: create_RSA_SSA_PKCS1_Template_outcome
      RSA_SSA_PKCS1_3072_SHA256_F4_Key_Template_def
      RSA_SSA_PKCS1_3072_SHA256_F4_RAW_Key_Template_def
      RSA_SSA_PKCS1_4096_SHA512_F4_Key_Template_def
      RSA_SSA_PKCS1_4096_SHA512_F4_RAW_Key_Template_def)

lemma rsa_ssa_pss_named_factories:
  "templateOutcome marshal
     (RsaSsaPssKeyFormatMsg \<lparr>RsaSsaPssKeyFormat.Params =
          \<lparr>SigHash = SHA256, Mgf1Hash = SHA256, SaltLength = 32\<rparr>,
        RsaSsaPssKeyFormat.ModulusSizeInBits = 3072,
        RsaSsaPssKeyFormat.PublicExponent = [1, 0, 1]\<rparr>)
     rsaSSAPSSSignerTypeURL TINK (RSA_SSA_PSS_3072_SHA256_32_F4_Key_Template marshal)"
  "templateOutcome marshal
     (RsaSsaPssKeyFormatMsg \<lparr>RsaSsaPssKeyFormat.Params =
          \<lparr>SigHash = SHA256, Mgf1Hash = SHA256, SaltLength = 32\<rparr>,
        RsaSsaPssKeyFormat.ModulusSizeInBits = 3072,
        RsaSsaPssKeyFormat.PublicExponent = [1, 0, 1]\<rparr>)
     rsaSSAPSSSignerTypeURL RAW (RSA_SSA_PSS_3072_SHA256_32_F4_Raw_Key_Template marshal)"
  "templateOutcome marshal
     (RsaSsaPssKeyFormatMsg \<lparr>RsaSsaPssKeyFormat.Params =
          \<lparr>SigHash = SHA512, Mgf1Hash = SHA512, SaltLength = 64\<rparr>,
        RsaSsaPssKeyFormat.ModulusSizeInBits = 4096,
        RsaSsaPssKeyFormat.PublicExponent = [1, 0, 1]\<rparr>)
     rsaSSAPSSSignerTypeURL TINK (RSA_SSA_PSS_4096_SHA512_64_F4_Key_Template marshal)"
  "templateOutcome marshal
     (RsaSsaPssKeyFormatMsg \<lparr>RsaSsaPssKeyFormat.Params =
          \<lparr>SigHash = SHA512, Mgf1Hash = SHA512, SaltLength = 64\<rparr>,
        RsaSsaPssKeyFormat.ModulusSizeInBits = 4096,
        RsaSsaPssKeyFormat.PublicExponent = [1, 0, 1]\<rparr>)
     rsaSSAPSSSignerTypeURL RAW (RSA_SSA_PSS_4096_SHA512_64_F4_Raw_Key_Template marshal)"
  by (simp_all add: create_RSA_SSA_PSS_Template_outcome
      RSA_SSA_PSS_3072_SHA256_32_F4_Key_Template_def
      RSA_SSA_PSS_3072_SHA256_32_F4_Raw_Key_Template_def
      RSA_SSA_PSS_4096_SHA512_64_F4_Key_Template_def
      RSA_SSA_PSS_4096_SHA512_64_F4_Raw_Key_Template_def)

text \<open>Claim C8: every key-template factory either aborts the process, when the
  serialization of its key format fails, or returns the template made of the algorithm's
  type URL, the serialized format and the output prefix type asked for; a template is
  returned only with the format that serialization produced. The statement lists every
  factory of the three template files: the five parameterised constructors, for all their
  arguments; the AES-SIV factory; the two ED25519 factories, which serialize nothing and
  return a template with an empty value; the two ECIES factories; and the ten HPKE, nine
  ECDSA and eight RSA factories named by algorithm and parameter choice, each with the
  format, type URL and prefix type that its name and doc comment announce.\<close>

theorem key_template_factories:
  "templateOutcome marshal
     (HpkeKeyFormatMsg \<lparr>HpkeKeyFormat.Params = \<lparr>Kem = kem, Kdf = kdf, Aead = aead\<rparr>\<rparr>)
     hpkePrivateKeyTypeURL p (createHPKEKeyTemplate marshal kem kdf aead p) \<and>
   templateOutcome marshal
     (EciesAeadHkdfKeyFormatMsg \<lparr>EciesAeadHkdfKeyFormat.Params =
        \<lparr>KemParams = \<lparr>CurveType = c, HkdfHashType = ht, HkdfSalt = salt\<rparr>,
         DemParams = \<lparr>AeadDem = dekT\<rparr>, EcPointFormat = ptfmt\<rparr>\<rparr>)
     ''type.googleapis.com/google.crypto.tink.EciesAeadHkdfPrivateKey'' TINK
     (createECIESAEADHKDFKeyTemplate marshal c ht ptfmt dekT salt) \<and>
   templateOutcome marshal
     (EcdsaKeyFormatMsg \<lparr>EcdsaKeyFormat.Params =
        \<lparr>EcdsaParams.HashType = hashType, Curve = curve, Encoding = encoding\<rparr>\<rparr>)
     ecdsaSignerTypeURL p (createECDSAKeyTemplate marshal hashType curve encoding p) \<and>
   templateOutcome marshal
     (RsaSsaPkcs1KeyFormatMsg \<lparr>RsaSsaPkcs1KeyFormat.Params = \<lparr>RsaSsaPkcs1Params.HashType = hashType\<rparr>,
        RsaSsaPkcs1KeyFormat.ModulusSizeInBits = bits,
        RsaSsaPkcs1KeyFormat.PublicExponent = [1, 0, 1]\<rparr>)
     rsaSSAPKCS1SignerTypeURL p (create_RSA_SSA_PKCS1_Template marshal p hashType bits) \<and>
   templateOutcome marshal
     (RsaSsaPssKeyFormatMsg \<lparr>RsaSsaPssKeyFormat.Params =
          \<lparr>SigHash = hashType, Mgf1Hash = hashType, SaltLength = saltLength\<rparr>,
        RsaSsaPssKeyFormat.ModulusSizeInBits = bits,
        RsaSsaPssKeyFormat.PublicExponent = [1, 0, 1]\<rparr>)
     rsaSSAPSSSignerTypeURL p (create_RSA_SSA_PSS_Template marshal p hashType saltLength bits) \<and>
   templateOutcome marshal (AesSivKeyFormatMsg \<lparr>AesSivKeyFormat.KeySize = 64\<rparr>)
     ''type.googleapis.com/google.crypto.tink.AesSivKey'' TINK (AESSIVKeyTemplate marshal) \<and>
   ED25519KeyTemplate =
     Returns \<lparr>TypeUrl = ed25519SignerTypeURL, Value = [], OutputPrefixType = TINK\<rparr> \<and>
   ED25519KeyWithoutPrefixTemplate =
     Returns \<lparr>TypeUrl = ed25519SignerTypeURL, Value = [], OutputPrefixType = RAW\<rparr> \<and>
   templateOutcome marshal
     (EciesAeadHkdfKeyFormatMsg \<lparr>EciesAeadHkdfKeyFormat.Params =
        \<lparr>KemParams = \<lparr>CurveType = NIST_P256, HkdfHashType = SHA256, HkdfSalt = []\<rparr>,
         DemParams = \<lparr>AeadDem = dekT\<rparr>, EcPointFormat = UNCOMPRESSED\<rparr>\<rparr>)
     ''type.googleapis.com/google.crypto.tink.EciesAeadHkdfPrivateKey'' TINK
     (ECIESHKDFAES128GCMKeyTemplate marshal dekT) \<and>
   templateOutcome marshal
     (EciesAeadHkdfKeyFormatMsg \<lparr>EciesAeadHkdfKeyFormat.Params =
        \<lparr>KemParams = \<lparr>CurveType = NIST_P256, HkdfHashType = SHA256, HkdfSalt = []\<rparr>,
         DemParams = \<lparr>AeadDem = dekT\<rparr>, EcPointFormat = UNCOMPRESSED\<rparr>\<rparr>)
     ''type.googleapis.com/google.crypto.tink.EciesAeadHkdfPrivateKey'' TINK
     (ECIESHKDFAES128CTRHMACSHA256KeyTemplate marshal dekT) \<and>
   templateOutcome marshal
     (HpkeKeyFormatMsg \<lparr>HpkeKeyFormat.Params = \<lparr>Kem = DHKEM_P256_HKDF_SHA256, Kdf = HKDF_SHA256, Aead = AES_128_GCM\<rparr>\<rparr>)
     hpkePrivateKeyTypeURL TINK (DHKEM_P256_HKDF_SHA256_HKDF_SHA256_AES_128_GCM_Key_Template marshal) \<and>
   templateOutcome marshal
     (HpkeKeyFormatMsg \<lparr>HpkeKeyFormat.Params = \<lparr>Kem = DHKEM_P256_HKDF_SHA256, Kdf = HKDF_SHA256, Aead = AES_128_GCM\<rparr>\<rparr>)
     hpkePrivateKeyTypeURL RAW (DHKEM_P256_HKDF_SHA256_HKDF_SHA256_AES_128_GCM_Raw_Key_Template marshal) \<and>
   templateOutcome marshal
     (HpkeKeyFormatMsg \<lparr>HpkeKeyFormat.Params = \<lparr>Kem = DHKEM_P256_HKDF_SHA256, Kdf = HKDF_SHA256, Aead = AES_256_GCM\<rparr>\<rparr>)
     hpkePrivateKeyTypeURL TINK (DHKEM_P256_HKDF_SHA256_HKDF_SHA256_AES_256_GCM_Key_Template marshal) \<and>
   templateOutcome marshal
     (HpkeKeyFormatMsg \<lparr>HpkeKeyFormat.Params = \<lparr>Kem = DHKEM_P256_HKDF_SHA256, Kdf = HKDF_SHA256, Aead = AES_256_GCM\<rparr>\<rparr>)
     hpkePrivateKeyTypeURL RAW (DHKEM_P256_HKDF_SHA256_HKDF_SHA256_AES_256_GCM_Raw_Key_Template marshal) \<and>
   templateOutcome marshal
     (HpkeKeyFormatMsg \<lparr>HpkeKeyFormat.Params = \<lparr>Kem = DHKEM_X25519_HKDF_SHA256, Kdf = HKDF_SHA256, Aead = AES_128_GCM\<rparr>\<rparr>)
     hpkePrivateKeyTypeURL TINK (DHKEM_X25519_HKDF_SHA256_HKDF_SHA256_AES_128_GCM_Key_Template marshal) \<and>
   templateOutcome marshal
     (HpkeKeyFormatMsg \<lparr>HpkeKeyFormat.Params = \<lparr>Kem = DHKEM_X25519_HKDF_SHA256, Kdf = HKDF_SHA256, Aead = AES_128_GCM\<rparr>\<rparr>)
     hpkePrivateKeyTypeURL RAW (DHKEM_X25519_HKDF_SHA256_HKDF_SHA256_AES_128_GCM_Raw_Key_Template marshal) \<and>
   templateOutcome marshal
     (HpkeKeyFormatMsg \<lparr>HpkeKeyFormat.Params = \<lparr>Kem = DHKEM_X25519_HKDF_SHA256, Kdf = HKDF_SHA256, Aead = AES_256_GCM\<rparr>\<rparr>)
     hpkePrivateKeyTypeURL TINK (DHKEM_X25519_HKDF_SHA256_HKDF_SHA256_AES_256_GCM_Key_Template marshal) \<and>
   templateOutcome marshal
     (HpkeKeyFormatMsg \<lparr>HpkeKeyFormat.Params = \<lparr>Kem = DHKEM_X25519_HKDF_SHA256, Kdf = HKDF_SHA256, Aead = AES_256_GCM\<rparr>\<rparr>)
     hpkePrivateKeyTypeURL RAW (DHKEM_X25519_HKDF_SHA256_HKDF_SHA256_AES_256_GCM_Raw_Key_Template marshal) \<and>
   templateOutcome marshal
     (HpkeKeyFormatMsg \<lparr>HpkeKeyFormat.Params = \<lparr>Kem = DHKEM_X25519_HKDF_SHA256, Kdf = HKDF_SHA256, Aead = CHACHA20_POLY1305\<rparr>\<rparr>)
     hpkePrivateKeyTypeURL TINK (DHKEM_X25519_HKDF_SHA256_HKDF_SHA256_CHACHA20_POLY1305_Key_Template marshal) \<and>
   templateOutcome marshal
     (HpkeKeyFormatMsg \<lparr>HpkeKeyFormat.Params = \<lparr>Kem = DHKEM_X25519_HKDF_SHA256, Kdf = HKDF_SHA256, Aead = CHACHA20_POLY1305\<rparr>\<rparr>)
     hpkePrivateKeyTypeURL RAW (DHKEM_X25519_HKDF_SHA256_HKDF_SHA256_CHACHA20_POLY1305_Raw_Key_Template marshal) \<and>
   templateOutcome marshal
     (EcdsaKeyFormatMsg \<lparr>EcdsaKeyFormat.Params =
        \<lparr>EcdsaParams.HashType = SHA256, Curve = NIST_P256, Encoding = DER\<rparr>\<rparr>)
     ecdsaSignerTypeURL TINK (ECDSAP256KeyTemplate marshal) \<and>
   templateOutcome marshal
     (EcdsaKeyFormatMsg \<lparr>EcdsaKeyFormat.Params =
        \<lparr>EcdsaParams.HashType = SHA256, Curve = NIST_P256, Encoding = DER\<rparr>\<rparr>)
     ecdsaSignerTypeURL RAW (ECDSAP256KeyWithoutPrefixTemplate marshal) \<and>
   templateOutcome marshal
     (EcdsaKeyFormatMsg \<lparr>EcdsaKeyFormat.Params =
        \<lparr>EcdsaParams.HashType = SHA256, Curve = NIST_P256, Encoding = IEEE_P1363\<rparr>\<rparr>)
     ecdsaSignerTypeURL RAW (ECDSAP256RawKeyTemplate marshal) \<and>
   templateOutcome marshal
     (EcdsaKeyFormatMsg \<lparr>EcdsaKeyFormat.Params =
        \<lparr>EcdsaParams.HashType = SHA384, Curve = NIST_P384, Encoding = DER\<rparr>\<rparr>)
     ecdsaSignerTypeURL TINK (ECDSAP384SHA384KeyTemplate marshal) \<and>
   templateOutcome marshal
     (EcdsaKeyFormatMsg \<lparr>EcdsaKeyFormat.Params =
        \<lparr>EcdsaParams.HashType = SHA384, Curve = NIST_P384, Encoding = DER\<rparr>\<rparr>)
     ecdsaSignerTypeURL RAW (ECDSAP384SHA384KeyWithoutPrefixTemplate marshal) \<and>
   templateOutcome marshal
     (EcdsaKeyFormatMsg \<lparr>EcdsaKeyFormat.Params =
        \<lparr>EcdsaParams.HashType = SHA512, Curve = NIST_P384, Encoding = DER\<rparr>\<rparr>)
     ecdsaSignerTypeURL TINK (ECDSAP384SHA512KeyTemplate marshal) \<and>
   templateOutcome marshal
     (EcdsaKeyFormatMsg \<lparr>EcdsaKeyFormat.Params =
        \<lparr>EcdsaParams.HashType = SHA512, Curve = NIST_P384, Encoding = DER\<rparr>\<rparr>)
     ecdsaSignerTypeURL RAW (ECDSAP384KeyWithoutPrefixTemplate marshal) \<and>
   templateOutcome marshal
     (EcdsaKeyFormatMsg \<lparr>EcdsaKeyFormat.Params =
        \<lparr>EcdsaParams.HashType = SHA512, Curve = NIST_P521, Encoding = DER\<rparr>\<rparr>)
     ecdsaSignerTypeURL TINK (ECDSAP521KeyTemplate marshal) \<and>
   templateOutcome marshal
     (EcdsaKeyFormatMsg \<lparr>EcdsaKeyFormat.Params =
        \<lparr>EcdsaParams.HashType = SHA512, Curve = NIST_P521, Encoding = DER\<rparr>\<rparr>)
     ecdsaSignerTypeURL RAW (ECDSAP521KeyWithoutPrefixTemplate marshal) \<and>
   templateOutcome marshal
     (RsaSsaPkcs1KeyFormatMsg \<lparr>RsaSsaPkcs1KeyFormat.Params = \<lparr>RsaSsaPkcs1Params.HashType = SHA256\<rparr>,
        RsaSsaPkcs1KeyFormat.ModulusSizeInBits = 3072,
        RsaSsaPkcs1KeyFormat.PublicExponent = [1, 0, 1]\<rparr>)
     rsaSSAPKCS1SignerTypeURL TINK (RSA_SSA_PKCS1_3072_SHA256_F4_Key_Template marshal) \<and>
   templateOutcome marshal
     (RsaSsaPkcs1KeyFormatMsg \<lparr>RsaSsaPkcs1KeyFormat.Params = \<lparr>RsaSsaPkcs1Params.HashType = SHA256\<rparr>,
        RsaSsaPkcs1KeyFormat.ModulusSizeInBits = 3072,
        RsaSsaPkcs1KeyFormat.PublicExponent = [1, 0, 1]\<rparr>)
     rsaSSAPKCS1SignerTypeURL RAW (RSA_SSA_PKCS1_3072_SHA256_F4_RAW_Key_Template marshal) \<and>
   templateOutcome marshal
     (RsaSsaPkcs1KeyFormatMsg \<lparr>RsaSsaPkcs1KeyFormat.Params = \<lparr>RsaSsaPkcs1Params.HashType = SHA512\<rparr>,
        RsaSsaPkcs1KeyFormat.ModulusSizeInBits = 4096,
        RsaSsaPkcs1KeyFormat.PublicExponent = [1, 0, 1]\<rparr>)
     rsaSSAPKCS1SignerTypeURL TINK (RSA_SSA_PKCS1_4096_SHA512_F4_Key_Template marshal) \<and>
   templateOutcome marshal
     (RsaSsaPkcs1KeyFormatMsg \<lparr>RsaSsaPkcs1KeyFormat.Params = \<lparr>RsaSsaPkcs1Params.HashType = SHA512\<rparr>,
        RsaSsaPkcs1KeyFormat.ModulusSizeInBits = 4096,
        RsaSsaPkcs1KeyFormat.PublicExponent = [1, 0, 1]\<rparr>)
     rsaSSAPKCS1SignerTypeURL RAW (RSA_SSA_PKCS1_4096_SHA512_F4_RAW_Key_Template marshal) \<and>
   templateOutcome marshal
     (RsaSsaPssKeyFormatMsg \<lparr>RsaSsaPssKeyFormat.Params =
          \<lparr>SigHash = SHA256, Mgf1Hash = SHA256, SaltLength = 32\<rparr>,
        RsaSsaPssKeyFormat.ModulusSizeInBits = 3072,
        RsaSsaPssKeyFormat.PublicExponent = [1, 0, 1]\<rparr>)
     rsaSSAPSSSignerTypeURL TINK (RSA_SSA_PSS_3072_SHA256_32_F4_Key_Template marshal) \<and>
   templateOutcome marshal
     (RsaSsaPssKeyFormatMsg \<lparr>RsaSsaPssKeyFormat.Params =
          \<lparr>SigHash = SHA256, Mgf1Hash = SHA256, SaltLength = 32\<rparr>,
        RsaSsaPssKeyFormat.ModulusSizeInBits = 3072,
        RsaSsaPssKeyFormat.PublicExponent = [1, 0, 1]\<rparr>)
     rsaSSAPSSSignerTypeURL RAW (RSA_SSA_PSS_3072_SHA256_32_F4_Raw_Key_Template marshal) \<and>
   templateOutcome marshal
     (RsaSsaPssKeyFormatMsg \<lparr>RsaSsaPssKeyFormat.Params =
          \<lparr>SigHash = SHA512, Mgf1Hash = SHA512, SaltLength = 64\<rparr>,
        RsaSsaPssKeyFormat.ModulusSizeInBits = 4096,
        RsaSsaPssKeyFormat.PublicExponent = [1, 0, 1]\<rparr>)
     rsaSSAPSSSignerTypeURL TINK (RSA_SSA_PSS_4096_SHA512_64_F4_Key_Template marshal) \<and>
   templateOutcome marshal
     (RsaSsaPssKeyFormatMsg \<lparr>RsaSsaPssKeyFormat.Params =
          \<lparr>SigHash = SHA512, Mgf1Hash = SHA512, SaltLength = 64\<rparr>,
        RsaSsaPssKeyFormat.ModulusSizeInBits = 4096,
        RsaSsaPssKeyFormat.PublicExponent = [1, 0, 1]\<rparr>)
     rsaSSAPSSSignerTypeURL RAW (RSA_SSA_PSS_4096_SHA512_64_F4_Raw_Key_Template marshal)"
  unfolding templateOutcome_def
  by (intro conjI)
    (simp_all add: Let_def
      createHPKEKeyTemplate_def createECIESAEADHKDFKeyTemplate_def
      ECIESHKDFAES128GCMKeyTemplate_def ECIESHKDFAES128CTRHMACSHA256KeyTemplate_def
      createECDSAKeyTemplate_def ED25519KeyTemplate_def ED25519KeyWithoutPrefixTemplate_def
      create_RSA_SSA_PKCS1_Template_def create_RSA_SSA_PSS_Template_def AESSIVKeyTemplate_def
      DHKEM_P256_HKDF_SHA256_HKDF_SHA256_AES_128_GCM_Key_Template_def
      DHKEM_P256_HKDF_SHA256_HKDF_SHA256_AES_128_GCM_Raw_Key_Template_def
      DHKEM_P256_HKDF_SHA256_HKDF_SHA256_AES_256_GCM_Key_Template_def
      DHKEM_P256_HKDF_SHA256_HKDF_SHA256_AES_256_GCM_Raw_Key_Template_def
      DHKEM_X25519_HKDF_SHA256_HKDF_SHA256_AES_128_GCM_Key_Template_def
      DHKEM_X25519_HKDF_SHA256_HKDF_SHA256_AES_128_GCM_Raw_Key_Template_def
      DHKEM_X25519_HKDF_SHA256_HKDF_SHA256_AES_256_GCM_Key_Template_def
      DHKEM_X25519_HKDF_SHA256_HKDF_SHA256_AES_256_GCM_Raw_Key_Template_def
      DHKEM_X25519_HKDF_SHA256_HKDF_SHA256_CHACHA20_POLY1305_Key_Template_def
      DHKEM_X25519_HKDF_SHA256_HKDF_SHA256_CHACHA20_POLY1305_Raw_Key_Template_def
      ECDSAP256KeyTemplate_def ECDSAP256KeyWithoutPrefixTemplate_def ECDSAP256RawKeyTemplate_def
      ECDSAP384SHA384KeyTemplate_def ECDSAP384SHA384KeyWithoutPrefixTemplate_def
      ECDSAP384SHA512KeyTemplate_def ECDSAP384KeyWithoutPrefixTemplate_def
      ECDSAP521KeyTemplate_def ECDSAP521KeyWithoutPrefixTemplate_def
      RSA_SSA_PKCS1_3072_SHA256_F4_Key_Template_def
      RSA_SSA_PKCS1_3072_SHA256_F4_RAW_Key_Template_def
      RSA_SSA_PKCS1_4096_SHA512_F4_Key_Template_def
      RSA_SSA_PKCS1_4096_SHA512_F4_RAW_Key_Template_def
      RSA_SSA_PSS_3072_SHA256_32_F4_Key_Template_def
      RSA_SSA_PSS_3072_SHA256_32_F4_Raw_Key_Template_def
      RSA_SSA_PSS_4096_SHA512_64_F4_Key_Template_def
      RSA_SSA_PSS_4096_SHA512_64_F4_Raw_Key_Template_def
      split: sum.splits)

theorem key_template_factories_witness:
  "(\<exists>msg. AESSIVKeyTemplate failingMarshal = ProcessAborted msg) \<and>
   AESSIVKeyTemplate constMarshal =
     Returns \<lparr>TypeUrl = ''type.googleapis.com/google.crypto.tink.AesSivKey'',
              Value = [10, 2, 8, 1], OutputPrefixType = TINK\<rparr> \<and>
   (\<exists>msg. createHPKEKeyTemplate failingMarshal DHKEM_X25519_HKDF_SHA256 HKDF_SHA256
            CHACHA20_POLY1305 RAW = ProcessAborted msg) \<and>
   createECDSAKeyTemplate constMarshal SHA256 NIST_P256 DER TINK =
     Returns \<lparr>TypeUrl = ecdsaSignerTypeURL, Value = [10, 2, 8, 1], OutputPrefixType = TINK\<rparr> \<and>
   ECDSAP256KeyTemplate constMarshal =
     Returns \<lparr>TypeUrl = ecdsaSignerTypeURL, Value = [10, 2, 8, 1], OutputPrefixType = TINK\<rparr> \<and>
   (\<exists>msg. ECDSAP256KeyTemplate failingMarshal = ProcessAborted msg) \<and>
   ECIESHKDFAES128GCMKeyTemplate constMarshal
       \<lparr>TypeUrl = ''type.googleapis.com/google.crypto.tink.AesGcmKey'', Value = [16, 16],
        OutputPrefixType = TINK\<rparr> =
     Returns \<lparr>TypeUrl = ''type.googleapis.com/google.crypto.tink.EciesAeadHkdfPrivateKey'',
              Value = [10, 2, 8, 1], OutputPrefixType = TINK\<rparr> \<and>
   (\<exists>msg. ECIESHKDFAES128GCMKeyTemplate failingMarshal
            \<lparr>TypeUrl = ''type.googleapis.com/google.crypto.tink.AesGcmKey'', Value = [16, 16],
             OutputPrefixType = TINK\<rparr> = ProcessAborted msg) \<and>
   DHKEM_X25519_HKDF_SHA256_HKDF_SHA256_CHACHA20_POLY1305_Raw_Key_Template constMarshal =
     Returns \<lparr>TypeUrl = hpkePrivateKeyTypeURL, Value = [10, 2, 8, 1], OutputPrefixType = RAW\<rparr> \<and>
   RSA_SSA_PKCS1_3072_SHA256_F4_Key_Template constMarshal =
     Returns \<lparr>TypeUrl = rsaSSAPKCS1SignerTypeURL, Value = [10, 2, 8, 1],
              OutputPrefixType = TINK\<rparr> \<and>
   RSA_SSA_PSS_4096_SHA512_64_F4_Raw_Key_Template constMarshal =
     Returns \<lparr>TypeUrl = rsaSSAPSSSignerTypeURL, Value = [10, 2, 8, 1],
              OutputPrefixType = RAW\<rparr>"
proof -
  let ?dekT = "\<lparr>TypeUrl = ''type.googleapis.com/google.crypto.tink.AesGcmKey'',
                Value = [16, 16], OutputPrefixType = TINK\<rparr>"
  note ok = key_template_factories [where marshal = constMarshal and hashType = SHA256
      and curve = NIST_P256 and encoding = DER and p = TINK and dekT = ?dekT]
  note bad = key_template_factories [where marshal = failingMarshal
      and kem = DHKEM_X25519_HKDF_SHA256 and kdf = HKDF_SHA256 and aead = CHACHA20_POLY1305
      and p = RAW and dekT = ?dekT]
  from ok bad show ?thesis
    by (simp add: templateOutcome_def failingMarshal_def constMarshal_def)
qed


end
